theory Spec2Isabelle
  imports Main "HOL-Library.Word" "HOL-Library.Sublist"
begin

section \<open>Carving recently-used-application records: the data model\<close>

text \<open>
  The development follows \<^verbatim>\<open>carve_for_ccm_recentlyusedapps.py\<close>. Bytes are 8-bit
  words, a Python \<^verbatim>\<open>bytes\<close> object is a list of them, a Python \<^verbatim>\<open>str\<close> is the list
  of its code points, and Python integers are unbounded (\<open>int\<close>).
\<close>

type_synonym byte = "8 word"
type_synonym pybytes = "byte list"
type_synonym pystr = "nat list"

definition str_of :: "string \<Rightarrow> pystr" where
  "str_of s = map of_char s"

definition BACKSLASH :: nat where
  "BACKSLASH = 92"

definition DOT :: nat where
  "DOT = 46"

definition SLASH :: nat where
  "SLASH = 47"

text \<open>The exceptions that the code or the library calls it makes can raise.\<close>

datatype error =
    StructError
  | ValueError
  | OverflowError
  | InvalidOperation
  | KeyError
  | AttributeError
  | TypeError
  | Unmodelled

text \<open>
  \<^verbatim>\<open>datetime\<close>: the proleptic Gregorian day number (\<^verbatim>\<open>toordinal()\<close>), the second of the
  day and the microsecond of the second. \<^verbatim>\<open>timedelta\<close>: normalised days, seconds,
  microseconds.
\<close>

record datetime =
  ordinal :: int
  second :: int
  microsecond :: int

record timedelta =
  td_days :: int
  td_seconds :: int
  td_microseconds :: int

text \<open>The values a record dictionary holds.\<close>

datatype pyval =
    VNone
  | VInt int
  | VStr pystr
  | VDatetime datetime

text \<open>
  A Python \<^verbatim>\<open>dict\<close> with string keys, in insertion order: assigning to a key that is
  present keeps its place, a new key goes to the end.
\<close>

type_synonym 'v pydict = "(string \<times> 'v) list"

fun dict_set :: "string \<Rightarrow> 'v \<Rightarrow> 'v pydict \<Rightarrow> 'v pydict" where
  "dict_set k v [] = [(k, v)]"
| "dict_set k v (p # ps) = (if fst p = k then (k, v) # ps else p # dict_set k v ps)"

definition dict_get :: "'v pydict \<Rightarrow> string \<Rightarrow> 'v option" where
  "dict_get d k = map_of d k"

definition dict_del :: "string \<Rightarrow> 'v pydict \<Rightarrow> 'v pydict" where
  "dict_del k d = filter (\<lambda>p. fst p \<noteq> k) d"

text \<open>\<^verbatim>\<open>d.update(pairs)\<close>: the pairs are assigned from left to right.\<close>

definition dict_update :: "'v pydict \<Rightarrow> (string \<times> 'v) list \<Rightarrow> 'v pydict" where
  "dict_update d kvs = fold (\<lambda>kv acc. dict_set (fst kv) (snd kv) acc) kvs d"

text \<open>
  The slice \<^verbatim>\<open>buf[i:j]\<close> of Python: a negative index counts from the end, and both
  ends are clipped to the sequence.
\<close>

definition clip_index :: "nat \<Rightarrow> int \<Rightarrow> nat" where
  "clip_index n i = (if i < 0 then nat (max (i + int n) 0) else min (nat i) n)"

definition py_slice :: "'a list \<Rightarrow> int \<Rightarrow> int \<Rightarrow> 'a list" where
  "py_slice xs i j =
     (let lo = clip_index (length xs) i; hi = clip_index (length xs) j
      in take (hi - lo) (drop lo xs))"

text \<open>\<^verbatim>\<open>s.rstrip(z)\<close> for a one-character \<open>z\<close>: every trailing \<open>z\<close> is removed.\<close>

definition rstrip :: "'a \<Rightarrow> 'a list \<Rightarrow> 'a list" where
  "rstrip z xs = rev (dropWhile (\<lambda>x. x = z) (rev xs))"

subsection \<open>Fixed layouts (\<^verbatim>\<open>NamedStruct\<close>)\<close>

text \<open>
  The format codes the two layouts use, all little-endian without alignment (\<^verbatim>\<open>'<'\<close>):
  \<^verbatim>\<open>'Q'\<close> unsigned 8 bytes, \<^verbatim>\<open>'I'\<close> unsigned 4 bytes, \<^verbatim>\<open>'h'\<close> signed 2 bytes and
  \<^verbatim>\<open>'Nx'\<close>, N pad bytes that produce no value.
\<close>

datatype fmt = FQ | FI | Fh | Fx nat

fun fmt_size :: "fmt \<Rightarrow> nat" where
  "fmt_size FQ = 8"
| "fmt_size FI = 4"
| "fmt_size Fh = 2"
| "fmt_size (Fx n) = n"

fun is_pad :: "fmt \<Rightarrow> bool" where
  "is_pad (Fx n) = True"
| "is_pad f = False"

type_synonym NamedStruct = "(string \<times> fmt) list"

definition struct_size :: "NamedStruct \<Rightarrow> nat" where
  "struct_size ps = sum_list (map (\<lambda>p. fmt_size (snd p)) ps)"

definition le_uint :: "pybytes \<Rightarrow> int" where
  "le_uint bs = foldr (\<lambda>b acc. uint b + 256 * acc) bs 0"

text \<open>The integers a layout reads at byte \<open>k\<close> of a buffer.\<close>

definition u32_at :: "pybytes \<Rightarrow> nat \<Rightarrow> int" where
  "u32_at buf k = le_uint (take 4 (drop k buf))"

definition u64_at :: "pybytes \<Rightarrow> nat \<Rightarrow> int" where
  "u64_at buf k = le_uint (take 8 (drop k buf))"

definition s16_at :: "pybytes \<Rightarrow> nat \<Rightarrow> int" where
  "s16_at buf k = sint (word_of_int (le_uint (take 2 (drop k buf))) :: 16 word)"

fun unpack_field :: "fmt \<Rightarrow> pybytes \<Rightarrow> int option" where
  "unpack_field FQ bs = Some (le_uint bs)"
| "unpack_field FI bs = Some (le_uint bs)"
| "unpack_field Fh bs = Some (sint (word_of_int (le_uint bs) :: 16 word))"
| "unpack_field (Fx n) bs = None"

fun unpack_fields :: "fmt list \<Rightarrow> pybytes \<Rightarrow> int list" where
  "unpack_fields [] bs = []"
| "unpack_fields (f # fs) bs =
     (case unpack_field f (take (fmt_size f) bs) of
        None \<Rightarrow> unpack_fields fs (drop (fmt_size f) bs)
      | Some v \<Rightarrow> v # unpack_fields fs (drop (fmt_size f) bs))"

text \<open>\<^verbatim>\<open>Struct.unpack\<close> raises \<^verbatim>\<open>struct.error\<close> unless the buffer has exactly the size.\<close>

definition unpack :: "NamedStruct \<Rightarrow> pybytes \<Rightarrow> error + int list" where
  "unpack ps buf =
     (if length buf = struct_size ps then Inr (unpack_fields (map snd ps) buf)
      else Inl StructError)"

text \<open>The names of the tuple: those of the pairs whose code has no \<^verbatim>\<open>'x'\<close>.\<close>

definition field_names :: "NamedStruct \<Rightarrow> string list" where
  "field_names ps = map fst (filter (\<lambda>p. \<not> is_pad (snd p)) ps)"

definition parse_as_dict :: "NamedStruct \<Rightarrow> pybytes \<Rightarrow> nat \<Rightarrow> error + int pydict" where
  "parse_as_dict ps buf offset =
     (case unpack ps (py_slice buf (int offset) (int (struct_size ps + offset))) of
        Inl e \<Rightarrow> Inl e
      | Inr vs \<Rightarrow> Inr (zip (field_names ps) vs))"

definition RECENTLY_USED_APPS_TYPES :: "(nat \<times> string) list" where
  "RECENTLY_USED_APPS_TYPES = [(128, ''Vista''), (64, ''XP'')]"

definition RUA_RECORD_HEADER :: NamedStruct where
  "RUA_RECORD_HEADER =
     [(''last_updated'', FQ),
      (''last_joined_sccm'', FQ),
      (''record_size'', FI),
      (''_classname_offset'', Fx 4),
      (''_unknown_byte_0x98'', Fx 1),
      (''_property_states'', Fx 5)]"

definition RUA_PROPERTY_OFFSETS_VALUES :: NamedStruct where
  "RUA_PROPERTY_OFFSETS_VALUES =
     [(''folder_path'', FI),
      (''explorer_filename'', FI),
      (''last_username'', FI),
      (''original_filename'', FI),
      (''file_version'', FI),
      (''file_size'', FI),
      (''product_name'', FI),
      (''product_version'', FI),
      (''company_name'', FI),
      (''product_language'', FI),
      (''file_description'', FI),
      (''launch_count'', FI),
      (''last_used_time'', FI),
      (''product_code'', FI),
      (''additional_product_codes'', FI),
      (''msi_display_name'', FI),
      (''msi_publisher'', FI),
      (''msi_version'', FI),
      (''software_properties_hash'', FI),
      (''file_properties_hash'', FI),
      (''_qualifiers_list'', Fx 4),
      (''_dynamic_properties'', Fx 1),
      (''properties_size'', Fh),
      (''_unknown_short_0xF5'', Fx 2)]"

definition RUA_PROPERTY_VALUE_FIELDS :: "string list" where
  "RUA_PROPERTY_VALUE_FIELDS = [''file_size'', ''launch_count'', ''product_language'']"

definition RUA_MAX_RECORD_SIZE :: int where
  "RUA_MAX_RECORD_SIZE = 65536"


subsection \<open>Timestamps\<close>

text \<open>
  \<^verbatim>\<open>Decimal.quantize(1, ROUND_HALF_EVEN)\<close> of the quotient \<open>num / den\<close> for a positive
  \<open>den\<close>: the nearest integer, a tie going to the even neighbour.
\<close>

definition quantize_half_even :: "int \<Rightarrow> int \<Rightarrow> int" where
  "quantize_half_even num den =
     (let q = num div den; r = num mod den
      in if 2 * r < den then q
         else if den < 2 * r then q + 1
         else if even q then q else q + 1)"

text \<open>
  \<^verbatim>\<open>timedelta(microseconds=us)\<close> normalises to days, seconds and microseconds and raises
  \<^verbatim>\<open>OverflowError\<close> beyond 999999999 days.
\<close>

definition timedelta_of_microseconds :: "int \<Rightarrow> error + timedelta" where
  "timedelta_of_microseconds us =
     (let d = us div 86400000000; r = us mod 86400000000
      in if 999999999 < \<bar>d\<bar> then Inl OverflowError
         else Inr \<lparr>td_days = d, td_seconds = r div 1000000, td_microseconds = r mod 1000000\<rparr>)"

definition MAXORDINAL :: int where
  "MAXORDINAL = 3652059"

text \<open>
  \<^verbatim>\<open>datetime + timedelta\<close>: the fields are added with carry; a day number outside
  \<open>1..MAXORDINAL\<close> (0001-01-01 to 9999-12-31) raises \<^verbatim>\<open>OverflowError\<close>.
\<close>

definition datetime_add :: "datetime \<Rightarrow> timedelta \<Rightarrow> error + datetime" where
  "datetime_add dt td =
     (let us = microsecond dt + td_microseconds td;
          s = second dt + td_seconds td + us div 1000000;
          d = ordinal dt + td_days td + s div 86400
      in if 0 < d \<and> d \<le> MAXORDINAL
         then Inr \<lparr>ordinal = d, second = s mod 86400, microsecond = us mod 1000000\<rparr>
         else Inl OverflowError)"

text \<open>\<^verbatim>\<open>datetime(1601, 1, 1)\<close>, whose day number is 584389.\<close>

definition EPOCH_1601 :: datetime where
  "EPOCH_1601 = \<lparr>ordinal = 584389, second = 0, microsecond = 0\<rparr>"

text \<open>
  \<^verbatim>\<open>parse_timestamp\<close>. The quotient of the two Decimals is taken as exact before it is
  quantized: with the only resolution the program uses (\<open>10^7\<close> against \<open>10^6\<close>) it has
  at most one fractional digit, so the 28 digits of the default context round it as the
  quantization does. \<^verbatim>\<open>quantize\<close> raises \<^verbatim>\<open>InvalidOperation\<close> for a result of more
  than 28 digits.
\<close>

definition parse_timestamp :: "int \<Rightarrow> int \<Rightarrow> datetime \<Rightarrow> error + datetime" where
  "parse_timestamp ticks resolution epoch =
     (let datetime_resolution = 1000000;
          us = quantize_half_even (ticks * datetime_resolution) resolution
      in if 10 ^ 28 \<le> \<bar>us\<bar> then Inl InvalidOperation
         else case timedelta_of_microseconds us of
                Inl e \<Rightarrow> Inl e
              | Inr td \<Rightarrow> datetime_add epoch td)"

definition parse_windows_timestamp :: "int \<Rightarrow> error + datetime" where
  "parse_windows_timestamp qword = parse_timestamp qword 10000000 EPOCH_1601"

text \<open>
  \<^verbatim>\<open>datetime_from_windows_filetime\<close> catches \<^verbatim>\<open>OverflowError\<close>, \<^verbatim>\<open>TypeError\<close> and
  \<^verbatim>\<open>ValueError\<close>; any other exception passes through. \<^verbatim>\<open>None\<close> and a datetime are not
  equal to 0 and cannot be multiplied by an integer (\<^verbatim>\<open>TypeError\<close>, caught). A string
  count, which \<^verbatim>\<open>process_hit\<close> never stores, is left out of the model.
\<close>

fun datetime_from_windows_filetime :: "pyval \<Rightarrow> error + pyval" where
  "datetime_from_windows_filetime (VInt count) =
     (if count = 0 then Inr VNone
      else case parse_windows_timestamp count of
             Inr d \<Rightarrow> Inr (VDatetime d)
           | Inl e \<Rightarrow>
               if e = OverflowError \<or> e = TypeError \<or> e = ValueError then Inr VNone
               else Inl e)"
| "datetime_from_windows_filetime VNone = Inr VNone"
| "datetime_from_windows_filetime (VDatetime d) = Inr VNone"
| "datetime_from_windows_filetime (VStr s) = Inl Unmodelled"

subsection \<open>Encoded strings\<close>

text \<open>
  \<^verbatim>\<open>bytes.decode('utf-16le', errors='replace')\<close>: a lone low surrogate, a high surrogate
  not followed by a low one, and an odd last byte each become U+FFFD; a high surrogate
  with fewer than two bytes after it swallows the rest of the input.
\<close>

definition code_unit :: "byte \<Rightarrow> byte \<Rightarrow> nat" where
  "code_unit lo hi = unat lo + 256 * unat hi"

definition is_surrogate :: "nat \<Rightarrow> bool" where
  "is_surrogate u = (55296 \<le> u \<and> u \<le> 57343)"

definition is_low_surrogate :: "nat \<Rightarrow> bool" where
  "is_low_surrogate u = (56320 \<le> u \<and> u \<le> 57343)"

definition join_surrogates :: "nat \<Rightarrow> nat \<Rightarrow> nat" where
  "join_surrogates h l = 65536 + (h - 55296) * 1024 + (l - 56320)"

fun utf16le_decode :: "pybytes \<Rightarrow> pystr" where
  "utf16le_decode [] = []"
| "utf16le_decode [b] = [65533]"
| "utf16le_decode (lo # hi # rest) =
     (let u = code_unit lo hi
      in if is_surrogate u
         then (if is_low_surrogate u then 65533 # utf16le_decode rest
               else (case rest of
                       lo2 # hi2 # rest2 \<Rightarrow>
                         (if is_low_surrogate (code_unit lo2 hi2)
                          then join_surrogates u (code_unit lo2 hi2) # utf16le_decode rest2
                          else 65533 # utf16le_decode rest)
                     | _ \<Rightarrow> [65533]))
         else u # utf16le_decode rest)"

text \<open>
  The diagnostics the program prints, one constructor for each \<^verbatim>\<open>print\<close>, with the
  values formatted into the message.
\<close>

datatype diag =
    CouldNotDecodeString pybytes pyval pyval
  | UnexpectedFlag pybytes pyval pyval
  | CouldNotDecodeOffsets nat pyval
  | CouldNotDecodeHeader nat pyval
  | RecordSizeTooLarge int int nat pyval

text \<open>
  \<^verbatim>\<open>decode_cim_encoded_string\<close>. Neither branch can raise: decoding replaces what is
  malformed, and stripping and indexing a \<^verbatim>\<open>bytes\<close> within its length are total. So the
  \<^verbatim>\<open>print\<close> after the two \<^verbatim>\<open>try\<close> blocks is never reached and the result is always a
  string.
\<close>

definition decode_cim_encoded_string :: "pybytes \<Rightarrow> nat \<Rightarrow> bool \<Rightarrow> pystr" where
  "decode_cim_encoded_string buf offset uncompressed =
     (if uncompressed then rstrip 0 (utf16le_decode buf)
      else map unat (drop offset (rstrip 0 buf)))"

definition read_cim_encoded_string ::
    "pybytes \<Rightarrow> int \<Rightarrow> int \<Rightarrow> pyval \<Rightarrow> pyval \<Rightarrow> pystr option \<times> diag list" where
  "read_cim_encoded_string buf start end fullpath file_offset =
     (if end - start = 2 then (None, [])
      else if int (length buf) < start then (None, [])
      else let uncompressed_raw = py_slice buf start (start + 1)
           in if uncompressed_raw = [0] \<or> uncompressed_raw = [1]
              then (let uncompressed = (uncompressed_raw = [1]);
                        next_byte = py_slice buf (start + 1) (start + 2)
                    in if next_byte = [] then (None, [])
                       else (Some (decode_cim_encoded_string
                                     (py_slice buf (start + 1) end) 0 uncompressed), []))
              else (None, [UnexpectedFlag uncompressed_raw file_offset fullpath]))"

subsection \<open>The file object\<close>

text \<open>
  The object \<^verbatim>\<open>open(path, 'rb')\<close> returns in \<^verbatim>\<open>main\<close> and in the tests, a buffered binary
  reader: \<^verbatim>\<open>read(n)\<close> returns at most \<open>n\<close> bytes from the position and advances it,
  \<^verbatim>\<open>read(-1)\<close> returns everything up to the end of the file, and a size below \<open>-1\<close>
  raises \<^verbatim>\<open>ValueError\<close>. Seeking beyond the end is allowed; reading there returns nothing.
\<close>

record fileobj =
  content :: pybytes
  pos :: nat

definition seek :: "fileobj \<Rightarrow> nat \<Rightarrow> fileobj" where
  "seek f n = f\<lparr>pos := n\<rparr>"

definition read_upto :: "fileobj \<Rightarrow> nat \<Rightarrow> pybytes \<times> fileobj" where
  "read_upto f n =
     (let out = take n (drop (pos f) (content f))
      in (out, f\<lparr>pos := pos f + length out\<rparr>))"

definition read_all :: "fileobj \<Rightarrow> pybytes \<times> fileobj" where
  "read_all f =
     (let out = drop (pos f) (content f)
      in (out, f\<lparr>pos := pos f + length out\<rparr>))"

definition fread :: "fileobj \<Rightarrow> int \<Rightarrow> error + pybytes \<times> fileobj" where
  "fread f n =
     (if n < - 1 then Inl ValueError
      else if n = - 1 then Inr (read_all f)
      else Inr (read_upto f (nat n)))"


subsection \<open>The offset table\<close>

text \<open>\<^verbatim>\<open>offsets.pop(prop_name, None)\<close>: the value, and the dictionary without the key.\<close>

definition pop_or_none :: "string \<Rightarrow> int pydict \<Rightarrow> pyval" where
  "pop_or_none k d = (case dict_get d k of None \<Rightarrow> VNone | Some v \<Rightarrow> VInt v)"

text \<open>
  \<^verbatim>\<open>get_prop_offsets\<close>: \<^verbatim>\<open>None\<close> with a diagnostic when the table does not unpack, else
  the offsets without the three value fields, which go into the record.
\<close>

definition get_prop_offsets ::
    "fileobj \<Rightarrow> pyval pydict \<Rightarrow> pyval \<Rightarrow> nat
       \<Rightarrow> int pydict option \<times> pyval pydict \<times> fileobj \<times> diag list" where
  "get_prop_offsets f record fullpath hash_start =
     (let (buf, f1) = read_upto f (struct_size RUA_PROPERTY_OFFSETS_VALUES)
      in case parse_as_dict RUA_PROPERTY_OFFSETS_VALUES buf 0 of
           Inl e \<Rightarrow> (None, record, f1, [CouldNotDecodeOffsets hash_start fullpath])
         | Inr offsets \<Rightarrow>
             (Some (fold dict_del RUA_PROPERTY_VALUE_FIELDS offsets),
              dict_update record
                (map (\<lambda>k. (k, pop_or_none k offsets)) RUA_PROPERTY_VALUE_FIELDS),
              f1, []))"

subsection \<open>The string fields\<close>

text \<open>
  The loop over \<^verbatim>\<open>enumerate(sorted_offsets)\<close>: a field ends where the next one in
  sorted order starts, the last one at \<^verbatim>\<open>properties_size\<close>.
\<close>

definition field_end :: "(string \<times> int) list \<Rightarrow> int \<Rightarrow> nat \<Rightarrow> int" where
  "field_end sorted_offsets properties_size idx =
     (if idx + 1 < length sorted_offsets then snd (sorted_offsets ! (idx + 1))
      else properties_size)"

definition field_ranges :: "(string \<times> int) list \<Rightarrow> int \<Rightarrow> (string \<times> int \<times> int) list" where
  "field_ranges sorted_offsets properties_size =
     map (\<lambda>idx. (fst (sorted_offsets ! idx), snd (sorted_offsets ! idx),
                  field_end sorted_offsets properties_size idx))
         [0..<length sorted_offsets]"

definition sorted_offsets_of :: "int pydict \<Rightarrow> (string \<times> int) list" where
  "sorted_offsets_of offsets = sort_key snd offsets"

definition val_of_str :: "pystr option \<Rightarrow> pyval" where
  "val_of_str v = (case v of None \<Rightarrow> VNone | Some s \<Rightarrow> VStr s)"

definition read_field ::
    "pybytes \<Rightarrow> pyval \<Rightarrow> nat \<Rightarrow> string \<times> int \<times> int
       \<Rightarrow> pyval pydict \<times> diag list \<Rightarrow> pyval pydict \<times> diag list" where
  "read_field properties_data fullpath hash_start rng acc =
     (let (prop_name, field_offset, fend) = rng;
          (v, d) = read_cim_encoded_string properties_data field_offset fend
                     fullpath (VInt (int hash_start))
      in (dict_set prop_name (val_of_str v) (fst acc), snd acc @ d))"

definition read_fields ::
    "pybytes \<Rightarrow> (string \<times> int) list \<Rightarrow> int \<Rightarrow> pyval \<Rightarrow> nat \<Rightarrow> pyval pydict
       \<Rightarrow> pyval pydict \<times> diag list" where
  "read_fields properties_data sorted_offsets properties_size fullpath hash_start record =
     fold (read_field properties_data fullpath hash_start)
          (field_ranges sorted_offsets properties_size) (record, [])"

subsection \<open>Derived fields\<close>

text \<open>
  \<^verbatim>\<open>os.path.splitext\<close> is that of the platform: the separator is \<^verbatim>\<open>/\<close> on POSIX,
  \<^verbatim>\<open>\\<close> with the alternative \<^verbatim>\<open>/\<close> on Windows. \<^verbatim>\<open>str.lower\<close> is the ASCII lowering
  on an ASCII string; for any other string it is the Unicode lowering, a parameter here.
\<close>

datatype os_flavour = Posix | Nt

record pyenv =
  flavour :: os_flavour
  unicode_lower :: "pystr \<Rightarrow> pystr"

text \<open>\<^verbatim>\<open>p.rfind(c)\<close>: the highest index of \<open>c\<close>, or \<open>-1\<close>.\<close>

definition rfind :: "nat \<Rightarrow> pystr \<Rightarrow> int" where
  "rfind c p =
     (case find (\<lambda>i. p ! i = c) (rev [0..<length p]) of
        None \<Rightarrow> - 1
      | Some i \<Rightarrow> int i)"

text \<open>
  \<^verbatim>\<open>genericpath._splitext\<close>: the extension starts at the last dot, if that dot comes
  after the last separator and after some character of the name that is not a dot.
\<close>

definition splitext_generic :: "pystr \<Rightarrow> nat \<Rightarrow> nat option \<Rightarrow> nat \<Rightarrow> pystr \<times> pystr" where
  "splitext_generic p sep altsep extsep =
     (let sepIndex = (case altsep of
                        None \<Rightarrow> rfind sep p
                      | Some a \<Rightarrow> max (rfind sep p) (rfind a p));
          dotIndex = rfind extsep p
      in if sepIndex < dotIndex
            \<and> list_ex (\<lambda>c. c \<noteq> extsep) (py_slice p (sepIndex + 1) dotIndex)
         then (py_slice p 0 dotIndex, drop (nat dotIndex) p)
         else (p, []))"

definition splitext :: "os_flavour \<Rightarrow> pystr \<Rightarrow> pystr \<times> pystr" where
  "splitext fl p =
     (case fl of
        Posix \<Rightarrow> splitext_generic p SLASH None DOT
      | Nt \<Rightarrow> splitext_generic p BACKSLASH (Some SLASH) DOT)"

definition ascii_lower :: "nat \<Rightarrow> nat" where
  "ascii_lower c = (if 65 \<le> c \<and> c \<le> 90 then c + 32 else c)"

definition py_lower :: "pyenv \<Rightarrow> pystr \<Rightarrow> pystr" where
  "py_lower env s =
     (if list_all (\<lambda>c. c < 128) s then map ascii_lower s else unicode_lower env s)"

definition endswith :: "pystr \<Rightarrow> nat \<Rightarrow> bool" where
  "endswith s c = (case rev s of [] \<Rightarrow> False | x # xs \<Rightarrow> x = c)"

fun truthy :: "pyval \<Rightarrow> bool" where
  "truthy VNone = False"
| "truthy (VInt n) = (n \<noteq> 0)"
| "truthy (VStr s) = (s \<noteq> [])"
| "truthy (VDatetime d) = True"

text \<open>\<^verbatim>\<open>record.get(k, '') or ''\<close>.\<close>

definition get_or_empty :: "pyval pydict \<Rightarrow> string \<Rightarrow> pyval" where
  "get_or_empty record k =
     (case dict_get record k of
        None \<Rightarrow> VStr []
      | Some v \<Rightarrow> if truthy v then v else VStr [])"

text \<open>\<^verbatim>\<open>s or None\<close> for a string.\<close>

definition str_or_none :: "pystr \<Rightarrow> pyval" where
  "str_or_none s = (if s = [] then VNone else VStr s)"

text \<open>
  \<^verbatim>\<open>parse_fields\<close>. A missing timestamp key raises \<^verbatim>\<open>KeyError\<close>; a folder path that
  is not a string has no \<^verbatim>\<open>endswith\<close> (\<^verbatim>\<open>AttributeError\<close>), and a file name that is not
  a string cannot be joined (\<^verbatim>\<open>TypeError\<close>).
\<close>

definition parse_fields :: "pyenv \<Rightarrow> pyval pydict \<Rightarrow> error + pyval pydict" where
  "parse_fields env record =
     (case dict_get record ''last_updated'' of
        None \<Rightarrow> Inl KeyError
      | Some lu \<Rightarrow>
     (case datetime_from_windows_filetime lu of
        Inl e \<Rightarrow> Inl e
      | Inr lu' \<Rightarrow>
     (let record1 = dict_set ''last_updated'' lu' record
      in case dict_get record1 ''last_joined_sccm'' of
        None \<Rightarrow> Inl KeyError
      | Some lj \<Rightarrow>
     (case datetime_from_windows_filetime lj of
        Inl e \<Rightarrow> Inl e
      | Inr lj' \<Rightarrow>
     (let record2 = dict_set ''last_joined_sccm'' lj' record1
      in case get_or_empty record2 ''folder_path'' of
        VStr folder_path \<Rightarrow>
          (case get_or_empty record2 ''explorer_filename'' of
             VStr file_name \<Rightarrow>
               (let full = folder_path
                            @ (if endswith folder_path BACKSLASH then [] else [BACKSLASH])
                            @ file_name;
                    record3 = dict_set ''full_path'' (str_or_none full) record2;
                    ext = py_lower env
                            (filter (\<lambda>c. c \<noteq> DOT) (snd (splitext (flavour env) file_name)))
                in Inr (dict_set ''file_extension'' (str_or_none ext) record3))
           | _ \<Rightarrow> Inl TypeError)
      | _ \<Rightarrow> Inl AttributeError)))))"

subsection \<open>One signature match\<close>

text \<open>
  The part of \<^verbatim>\<open>process_hit\<close> after the record size has been checked: the offset
  table, the properties blob, the string fields and the derived fields. The result is the
  returned record or the exception that escapes, the file object, and what was printed.
\<close>

text \<open>The size handed to \<^verbatim>\<open>fileobj.read\<close> for the properties blob.\<close>

definition blob_read_length :: "int \<Rightarrow> int" where
  "blob_read_length properties_size = min properties_size RUA_MAX_RECORD_SIZE"

type_synonym outcome = "(error + pyval pydict) \<times> fileobj \<times> diag list"

definition decode_properties ::
    "pyenv \<Rightarrow> fileobj \<Rightarrow> pyval pydict \<Rightarrow> pyval \<Rightarrow> nat \<Rightarrow> outcome" where
  "decode_properties env f record fullpath hash_start =
     (case get_prop_offsets f record fullpath hash_start of
        (None, record1, f1, d1) \<Rightarrow> (Inr record1, f1, d1)
      | (Some offsets, record1, f1, d1) \<Rightarrow>
          (case dict_get offsets ''properties_size'' of
             None \<Rightarrow> (Inl KeyError, f1, d1)
           | Some properties_size \<Rightarrow>
               (case fread f1 (blob_read_length properties_size) of
                  Inl e \<Rightarrow> (Inl e, f1, d1)
                | Inr (properties_data, f2) \<Rightarrow>
                    (let sorted_offsets =
                           sorted_offsets_of (dict_del ''properties_size'' offsets);
                         (record2, d2) =
                           read_fields properties_data sorted_offsets properties_size
                             fullpath hash_start record1
                     in (parse_fields env record2, f2, d1 @ d2)))))"

definition process_hit :: "pyenv \<Rightarrow> fileobj \<Rightarrow> nat \<times> nat \<Rightarrow> pyval \<Rightarrow> outcome" where
  "process_hit env f m fullpath =
     (let hash_start = fst m; hash_end = snd m; match_len = hash_end - hash_start
      in case map_of RECENTLY_USED_APPS_TYPES match_len of
           None \<Rightarrow> (Inl KeyError, f, [])
         | Some record_type \<Rightarrow>
             (let record = [(''input_file_path'', fullpath),
                            (''offset'', VInt (int hash_start)),
                            (''record_type'', VStr (str_of record_type))];
                  (buf, f1) = read_upto (seek f hash_end) (struct_size RUA_RECORD_HEADER)
              in case parse_as_dict RUA_RECORD_HEADER buf 0 of
                   Inl e \<Rightarrow> (Inr record, f1, [CouldNotDecodeHeader hash_start fullpath])
                 | Inr header \<Rightarrow>
                     (let record1 = dict_update record (map (\<lambda>kv. (fst kv, VInt (snd kv))) header)
                      in case dict_get record1 ''record_size'' of
                           Some (VInt record_size) \<Rightarrow>
                             (let record2 = dict_del ''record_size'' record1;
                                  d0 = (if RUA_MAX_RECORD_SIZE < record_size
                                        then [RecordSizeTooLarge record_size RUA_MAX_RECORD_SIZE
                                                hash_start fullpath]
                                        else []);
                                  (res, f2, d) =
                                    decode_properties env f1 record2 fullpath hash_start
                              in (res, f2, d0 @ d))
                         | _ \<Rightarrow> (Inl KeyError, f1, []))))"

subsection \<open>The scan\<close>

text \<open>
  The pattern is the two signatures, each a hexadecimal string in UTF-16LE, joined by
  \<^verbatim>\<open>|\<close>: at a position the first alternative is tried before the second, and the search
  goes on after the end of a match.
\<close>

definition encode_utf16le :: "string \<Rightarrow> pybytes" where
  "encode_utf16le s = concat (map (\<lambda>c. [of_char c, 0]) s)"

definition SIG_VISTA :: pybytes where
  "SIG_VISTA = encode_utf16le
     ''7C261551B264D35E30A7FA29C75283DAE04BBA71DBE8F5E553F7AD381B406DD8''"

definition SIG_XP :: pybytes where
  "SIG_XP = encode_utf16le ''6FA62F462BEF740F820D72D9250D743C''"

definition pattern :: "pybytes list" where
  "pattern = [SIG_VISTA, SIG_XP]"

definition match_at :: "pybytes list \<Rightarrow> pybytes \<Rightarrow> nat option" where
  "match_at alts bs = map_option length (find (\<lambda>a. prefix a bs) alts)"

function finditer_from :: "pybytes list \<Rightarrow> pybytes \<Rightarrow> nat \<Rightarrow> (nat \<times> nat) list" where
  "finditer_from alts data i =
     (if length data \<le> i then []
      else case match_at alts (drop i data) of
             None \<Rightarrow> finditer_from alts data (i + 1)
           | Some n \<Rightarrow> (i, i + n) # finditer_from alts data (i + max n 1))"
  by pat_completeness auto
termination
  by (relation "measure (\<lambda>(alts, data, i). length data - i)") auto

declare finditer_from.simps [simp del]

definition finditer :: "pybytes list \<Rightarrow> pybytes \<Rightarrow> (nat \<times> nat) list" where
  "finditer alts data = finditer_from alts data 0"

text \<open>
  The generator \<^verbatim>\<open>parse\<close>: the records it yields, the exception that ends it if one
  escapes, and what was printed. Mapping an empty file raises \<^verbatim>\<open>ValueError\<close>.
\<close>

fun parse_hits ::
    "pyenv \<Rightarrow> fileobj \<Rightarrow> (nat \<times> nat) list \<Rightarrow> pyval
       \<Rightarrow> pyval pydict list \<times> error option \<times> diag list" where
  "parse_hits env f [] fullpath = ([], None, [])"
| "parse_hits env f (m # ms) fullpath =
     (case process_hit env f m fullpath of
        (Inl e, f1, d) \<Rightarrow> ([], Some e, d)
      | (Inr record, f1, d) \<Rightarrow>
          (case parse_hits env f1 ms fullpath of
             (records, e, d') \<Rightarrow> (record # records, e, d @ d')))"

definition parse ::
    "pyenv \<Rightarrow> fileobj \<Rightarrow> pyval \<Rightarrow> pyval pydict list \<times> error option \<times> diag list" where
  "parse env f fullpath =
     (let data = content f
      in if data = [] then ([], Some ValueError, [])
         else parse_hits env f (finditer pattern data) fullpath)"


subsection \<open>Notions used to state the properties\<close>

text \<open>
  \<open>n\<close> is \<open>num / den\<close> rounded half-even: a nearest integer, and the even one of the
  two when the quotient lies exactly between them.
\<close>

definition is_round_half_even :: "int \<Rightarrow> int \<Rightarrow> int \<Rightarrow> bool" where
  "is_round_half_even n num den =
     (2 * \<bar>den * n - num\<bar> < den \<or> (2 * \<bar>den * n - num\<bar> = den \<and> even n))"

text \<open>
  The timestamp \<open>us\<close> microseconds after 1601-01-01 00:00:00, and the number of
  microseconds from there to 9999-12-31 23:59:59.999999, the last \<^verbatim>\<open>datetime\<close>.
\<close>

definition datetime_of_us :: "int \<Rightarrow> datetime" where
  "datetime_of_us us =
     \<lparr>ordinal = 584389 + us div 86400000000,
      second = (us mod 86400000000) div 1000000,
      microsecond = us mod 1000000\<rparr>"

definition DATETIME_MAX_US :: int where
  "DATETIME_MAX_US = 3067671 * 86400000000 - 1"

text \<open>
  The string a record holds under a key, the empty string when the field is null or absent;
  and the folder, file name and full path of the record in the repository's test.
\<close>

definition str_field :: "pyval pydict \<Rightarrow> string \<Rightarrow> pystr" where
  "str_field record k = (case dict_get record k of Some (VStr s) \<Rightarrow> s | _ \<Rightarrow> [])"

definition TEST_FOLDER_PATH :: pystr where
  "TEST_FOLDER_PATH =
     str_of ''C:'' @ [BACKSLASH] @ str_of ''Windows'' @ [BACKSLASH] @ str_of ''SysWOW64''
       @ [BACKSLASH] @ str_of ''Macromed'' @ [BACKSLASH] @ str_of ''Flash'' @ [BACKSLASH]"

definition TEST_EXPLORER_FILENAME :: pystr where
  "TEST_EXPLORER_FILENAME = str_of ''FlashUtil32_29_0_0_140_Plugin.exe''"

definition TEST_FULL_PATH :: pystr where
  "TEST_FULL_PATH =
     str_of ''C:'' @ [BACKSLASH] @ str_of ''Windows'' @ [BACKSLASH] @ str_of ''SysWOW64''
       @ [BACKSLASH] @ str_of ''Macromed'' @ [BACKSLASH] @ str_of ''Flash'' @ [BACKSLASH]
       @ str_of ''FlashUtil32_29_0_0_140_Plugin.exe''"

definition TEST_RECORD :: "pyval pydict" where
  "TEST_RECORD =
     [(''last_updated'', VInt 0), (''last_joined_sccm'', VInt 0),
      (''folder_path'', VStr TEST_FOLDER_PATH),
      (''explorer_filename'', VStr TEST_EXPLORER_FILENAME)]"

text \<open>A platform for the evaluation of concrete inputs.\<close>

definition ENV0 :: pyenv where
  "ENV0 = \<lparr>flavour = Posix, unicode_lower = (\<lambda>s. s)\<rparr>"

text \<open>
  Two concrete files. The first holds the XP signature at offset 0, a header whose record
  size is 70000, and an offset table of 89 zero bytes, so that every offset and the
  properties size are 0; the record below is what it decodes to. The second holds the
  signature, a header of zero bytes and only 88 bytes of offset table.
\<close>

definition ZERO_TABLE_FILE :: fileobj where
  "ZERO_TABLE_FILE =
     \<lparr>content = SIG_XP @ replicate 16 0 @ [112, 17, 1, 0] @ replicate 10 0 @ replicate 89 0,
      pos = 0\<rparr>"

definition ZERO_TABLE_RECORD :: "pyval pydict" where
  "ZERO_TABLE_RECORD =
     [(''input_file_path'', VNone), (''offset'', VInt 0),
       (''record_type'', VStr (str_of ''XP'')),
       (''last_updated'', VNone), (''last_joined_sccm'', VNone),
       (''file_size'', VInt 0), (''launch_count'', VInt 0), (''product_language'', VInt 0),
       (''folder_path'', VNone), (''explorer_filename'', VNone),
       (''last_username'', VNone), (''original_filename'', VNone),
       (''file_version'', VNone), (''product_name'', VNone), (''product_version'', VNone),
       (''company_name'', VNone), (''file_description'', VNone),
       (''last_used_time'', VNone), (''product_code'', VNone),
       (''additional_product_codes'', VNone), (''msi_display_name'', VNone),
       (''msi_publisher'', VNone), (''msi_version'', VNone),
       (''software_properties_hash'', VNone), (''file_properties_hash'', VNone),
       (''full_path'', VStr [BACKSLASH]), (''file_extension'', VNone)]"


text \<open>The two ends of a field's range.\<close>

definition range_start :: "string \<times> int \<times> int \<Rightarrow> int" where
  "range_start r = fst (snd r)"

definition range_end :: "string \<times> int \<times> int \<Rightarrow> int" where
  "range_end r = snd (snd r)"

text \<open>
  The offsets that the all-zero table decodes to, with the properties size, and the
  ranges of the string fields computed from them.
\<close>

definition ZERO_TABLE_OFFSETS :: "int pydict" where
  "ZERO_TABLE_OFFSETS =
     [(''folder_path'', 0), (''explorer_filename'', 0), (''last_username'', 0),
       (''original_filename'', 0), (''file_version'', 0), (''product_name'', 0),
       (''product_version'', 0), (''company_name'', 0), (''file_description'', 0),
       (''last_used_time'', 0), (''product_code'', 0),
       (''additional_product_codes'', 0), (''msi_display_name'', 0),
       (''msi_publisher'', 0), (''msi_version'', 0),
       (''software_properties_hash'', 0), (''file_properties_hash'', 0),
       (''properties_size'', 0)]"

definition ZERO_TABLE_RANGES :: "(string \<times> int \<times> int) list" where
  "ZERO_TABLE_RANGES =
     [(''folder_path'', 0, 0), (''explorer_filename'', 0, 0),
       (''last_username'', 0, 0), (''original_filename'', 0, 0),
       (''file_version'', 0, 0), (''product_name'', 0, 0),
       (''product_version'', 0, 0), (''company_name'', 0, 0),
       (''file_description'', 0, 0), (''last_used_time'', 0, 0),
       (''product_code'', 0, 0), (''additional_product_codes'', 0, 0),
       (''msi_display_name'', 0, 0), (''msi_publisher'', 0, 0),
       (''msi_version'', 0, 0), (''software_properties_hash'', 0, 0),
       (''file_properties_hash'', 0, 0)]"

section \<open>Properties\<close>

subsection \<open>Slices and layouts\<close>

lemma py_slice_nonneg:
  assumes i: "0 \<le> i" and j: "0 \<le> j"
  shows "py_slice xs i j = take (nat j - nat i) (drop (nat i) xs)"
proof (cases "nat i \<le> length xs")
  case True
  then have lo: "clip_index (length xs) i = nat i"
    using i by (simp add: clip_index_def)
  have hi: "clip_index (length xs) j = min (nat j) (length xs)"
    using j by (simp add: clip_index_def)
  show ?thesis
  proof (cases "nat j \<le> length xs")
    case True
    then show ?thesis by (simp add: py_slice_def lo hi Let_def)
  next
    case False
    then show ?thesis using \<open>nat i \<le> length xs\<close> by (simp add: py_slice_def lo hi Let_def)
  qed
next
  case False
  then show ?thesis using i by (simp add: py_slice_def clip_index_def Let_def)
qed

lemma struct_size_header: "struct_size RUA_RECORD_HEADER = 30"
  by (simp add: struct_size_def RUA_RECORD_HEADER_def)

lemma struct_size_offsets: "struct_size RUA_PROPERTY_OFFSETS_VALUES = 89"
  by (simp add: struct_size_def RUA_PROPERTY_OFFSETS_VALUES_def)

lemma header_layout:
  "length buf = 30 \<Longrightarrow>
   parse_as_dict RUA_RECORD_HEADER buf 0 =
     Inr [(''last_updated'', u64_at buf 0), (''last_joined_sccm'', u64_at buf 8),
          (''record_size'', u32_at buf 16)]"
  by (simp add: parse_as_dict_def unpack_def struct_size_header py_slice_nonneg field_names_def
        u32_at_def u64_at_def, simp add: RUA_RECORD_HEADER_def)

lemma header_short:
  "length buf < 30 \<Longrightarrow> parse_as_dict RUA_RECORD_HEADER buf 0 = Inl StructError"
  by (simp add: parse_as_dict_def unpack_def struct_size_header py_slice_nonneg)

lemma offsets_layout:
  "length buf = 89 \<Longrightarrow>
   parse_as_dict RUA_PROPERTY_OFFSETS_VALUES buf 0 =
     Inr [(''folder_path'', u32_at buf 0),
          (''explorer_filename'', u32_at buf 4),
          (''last_username'', u32_at buf 8),
          (''original_filename'', u32_at buf 12),
          (''file_version'', u32_at buf 16),
          (''file_size'', u32_at buf 20),
          (''product_name'', u32_at buf 24),
          (''product_version'', u32_at buf 28),
          (''company_name'', u32_at buf 32),
          (''product_language'', u32_at buf 36),
          (''file_description'', u32_at buf 40),
          (''launch_count'', u32_at buf 44),
          (''last_used_time'', u32_at buf 48),
          (''product_code'', u32_at buf 52),
          (''additional_product_codes'', u32_at buf 56),
          (''msi_display_name'', u32_at buf 60),
          (''msi_publisher'', u32_at buf 64),
          (''msi_version'', u32_at buf 68),
          (''software_properties_hash'', u32_at buf 72),
          (''file_properties_hash'', u32_at buf 76),
          (''properties_size'', s16_at buf 85)]"
  by (simp add: parse_as_dict_def unpack_def struct_size_offsets py_slice_nonneg field_names_def
        u32_at_def s16_at_def, simp add: RUA_PROPERTY_OFFSETS_VALUES_def)

lemma offsets_short:
  "length buf < 89 \<Longrightarrow> parse_as_dict RUA_PROPERTY_OFFSETS_VALUES buf 0 = Inl StructError"
  by (simp add: parse_as_dict_def unpack_def struct_size_offsets py_slice_nonneg)

lemma offsets_parse_take:
  "parse_as_dict RUA_PROPERTY_OFFSETS_VALUES buf 0 =
   parse_as_dict RUA_PROPERTY_OFFSETS_VALUES (take 89 buf) 0"
  by (simp add: parse_as_dict_def struct_size_offsets py_slice_nonneg)

lemma s16_at_le: "s16_at buf k \<le> 32767"
proof -
  have "sint (word_of_int (le_uint (take 2 (drop k buf))) :: 16 word) < 2 ^ (LENGTH(16) - 1)"
    by (rule sint_lt)
  then show ?thesis by (simp add: s16_at_def)
qed

lemma py_slice_one:
  assumes "0 \<le> i" "i < int (length xs)"
  shows "py_slice xs i (i + 1) = [xs ! nat i]"
proof -
  have n: "nat i < length xs" using assms by simp
  have "py_slice xs i (i + 1) = take (nat (i + 1) - nat i) (drop (nat i) xs)"
    using assms by (intro py_slice_nonneg) simp_all
  also have "nat (i + 1) - nat i = 1" using assms by simp
  also have "take 1 (drop (nat i) xs) = [xs ! nat i]"
    using n by (simp add: Cons_nth_drop_Suc [symmetric])
  finally show ?thesis .
qed

lemma py_slice_past_end:
  assumes "int (length xs) \<le> i"
  shows "py_slice xs i j = []"
  using assms by (simp add: py_slice_def clip_index_def Let_def)

lemma py_slice_empty_range:
  assumes "0 \<le> i" "0 \<le> j" "j \<le> i"
  shows "py_slice xs i j = []"
  using assms by (simp add: py_slice_nonneg)

lemma decode_empty: "decode_cim_encoded_string [] 0 u = []"
  by (simp add: decode_cim_encoded_string_def rstrip_def)

subsection \<open>Timestamps\<close>

lemma quantize_half_even_nearest:
  assumes "0 < den"
  shows "is_round_half_even (quantize_half_even num den) num den"
proof -
  define q where "q = num div den"
  define r where "r = num mod den"
  have num: "num = den * q + r" by (simp add: q_def r_def)
  have r: "0 \<le> r" "r < den" using assms by (simp_all add: r_def)
  have a: "den * q - num = - r" using num by simp
  have b: "den * (q + 1) - num = den - r" using num by (simp add: algebra_simps)
  consider "2 * r < den" | "den < 2 * r" | "2 * r = den" "even q" | "2 * r = den" "odd q"
    by fastforce
  then show ?thesis
  proof cases
    case 1
    then have "quantize_half_even num den = q"
      by (simp add: quantize_half_even_def q_def r_def Let_def)
    then show ?thesis using 1 r a by (simp add: is_round_half_even_def)
  next
    case 2
    then have "quantize_half_even num den = q + 1"
      by (simp add: quantize_half_even_def q_def r_def Let_def)
    then show ?thesis using 2 r b by (simp add: is_round_half_even_def)
  next
    case 3
    then have "quantize_half_even num den = q"
      by (simp add: quantize_half_even_def q_def r_def Let_def)
    then show ?thesis using 3 r a by (simp add: is_round_half_even_def)
  next
    case 4
    then have "quantize_half_even num den = q + 1"
      by (simp add: quantize_half_even_def q_def r_def Let_def)
    then show ?thesis using 4 r b by (simp add: is_round_half_even_def)
  qed
qed

lemma is_round_half_even_unique:
  assumes "0 < den" "is_round_half_even a num den" "is_round_half_even b num den"
  shows "a = b"
proof (rule ccontr)
  assume ne: "a \<noteq> b"
  have tri: "\<bar>den * a - den * b\<bar> \<le> \<bar>den * a - num\<bar> + \<bar>den * b - num\<bar>" by linarith
  have "\<bar>den * a - den * b\<bar> = den * \<bar>a - b\<bar>"
    using assms(1) by (simp add: abs_mult right_diff_distrib [symmetric])
  moreover have "1 \<le> \<bar>a - b\<bar>" using ne by linarith
  ultimately have big: "den * \<bar>a - b\<bar> \<le> \<bar>den * a - num\<bar> + \<bar>den * b - num\<bar>"
    using tri by simp
  have ha: "2 * \<bar>den * a - num\<bar> \<le> den" and hb: "2 * \<bar>den * b - num\<bar> \<le> den"
    using assms(2,3) by (auto simp: is_round_half_even_def)
  define A where "A = \<bar>den * a - num\<bar>"
  define B where "B = \<bar>den * b - num\<bar>"
  define X where "X = den * \<bar>a - b\<bar>"
  have "X \<le> A + B" "2 * A \<le> den" "2 * B \<le> den"
    using big ha hb by (simp_all add: A_def B_def X_def)
  then have "2 * X \<le> 2 * den" by linarith
  then have "2 * (den * \<bar>a - b\<bar>) \<le> 2 * den" by (simp add: X_def)
  then have "\<bar>a - b\<bar> \<le> 1" using assms(1) by simp
  with \<open>1 \<le> \<bar>a - b\<bar>\<close> have d1: "\<bar>a - b\<bar> = 1" by linarith
  then have "X = den" by (simp add: X_def)
  with \<open>X \<le> A + B\<close> \<open>2 * A \<le> den\<close> \<open>2 * B \<le> den\<close>
  have "2 * A = den \<and> 2 * B = den" by linarith
  then have "2 * \<bar>den * a - num\<bar> = den \<and> 2 * \<bar>den * b - num\<bar> = den"
    by (simp add: A_def B_def)
  then have "even a" "even b" using assms(2,3) by (auto simp: is_round_half_even_def)
  then have "even (a - b)" by simp
  then have "even \<bar>a - b\<bar>" by simp
  with d1 show False by simp
qed

lemma quantize_bounds:
  assumes "0 < den" "0 \<le> num"
  shows "0 \<le> quantize_half_even num den" "quantize_half_even num den \<le> num div den + 1"
proof -
  have "0 \<le> num div den" using assms by (simp add: pos_imp_zdiv_nonneg_iff)
  then show "0 \<le> quantize_half_even num den"
    by (simp add: quantize_half_even_def Let_def)
  show "quantize_half_even num den \<le> num div den + 1"
    by (simp add: quantize_half_even_def Let_def)
qed


lemma timedelta_ok:
  assumes "0 \<le> us" "us < 10 ^ 19"
  shows "timedelta_of_microseconds us =
     Inr \<lparr>td_days = us div 86400000000, td_seconds = (us mod 86400000000) div 1000000,
          td_microseconds = (us mod 86400000000) mod 1000000\<rparr>"
proof -
  have "\<bar>us div 86400000000\<bar> \<le> 999999999" using assms by simp
  then show ?thesis by (simp add: timedelta_of_microseconds_def Let_def)
qed

lemma epoch_add:
  assumes "0 \<le> us"
  shows "datetime_add EPOCH_1601
           \<lparr>td_days = us div 86400000000, td_seconds = (us mod 86400000000) div 1000000,
            td_microseconds = (us mod 86400000000) mod 1000000\<rparr> =
         (if us \<le> DATETIME_MAX_US then Inr (datetime_of_us us) else Inl OverflowError)"
proof -
  let ?r = "us mod 86400000000"
  have r: "0 \<le> ?r" "?r < 86400000000" by simp_all
  have m: "?r mod 1000000 div 1000000 = 0" by simp
  have s: "0 \<le> ?r div 1000000" "?r div 1000000 < 86400"
    using r by linarith+
  then have s0: "?r div 1000000 div 86400 = 0" "?r div 1000000 mod 86400 = ?r div 1000000"
    by simp_all
  have mm: "?r mod 1000000 = us mod 1000000"
    by (rule mod_mod_cancel) simp
  have d: "0 \<le> us div 86400000000" using assms by (simp add: pos_imp_zdiv_nonneg_iff)
  have iff: "us div 86400000000 \<le> 3067670 \<longleftrightarrow> us \<le> DATETIME_MAX_US"
    unfolding DATETIME_MAX_US_def by linarith
  show ?thesis
    using d iff
    by (simp add: datetime_add_def EPOCH_1601_def Let_def m s0 mm datetime_of_us_def MAXORDINAL_def)
qed


lemma filetime_value:
  fixes ticks :: "64 word"
  defines "us \<equiv> quantize_half_even (uint ticks * 1000000) 10000000"
  shows "datetime_from_windows_filetime (VInt (uint ticks)) =
           Inr (if ticks = 0 \<or> DATETIME_MAX_US < us then VNone
                else VDatetime (datetime_of_us us))"
proof -
  have t: "0 \<le> uint ticks" "uint ticks < 2 ^ 64"
    using uint_lt2p [of ticks] by simp_all
  have us0: "0 \<le> us"
    unfolding us_def using t by (intro quantize_bounds) simp_all
  have "us \<le> uint ticks * 1000000 div 10000000 + 1"
    unfolding us_def using t by (intro quantize_bounds) simp_all
  moreover have "uint ticks * 1000000 div 10000000 < 2 ^ 62" using t by simp
  ultimately have us1: "us < 10 ^ 19" by simp
  then have us2: "\<not> 10 ^ 28 \<le> \<bar>us\<bar>" using us0 by simp
  have pt: "parse_windows_timestamp (uint ticks) =
              (if us \<le> DATETIME_MAX_US then Inr (datetime_of_us us) else Inl OverflowError)"
    using us2 timedelta_ok [OF us0 us1] epoch_add [OF us0]
    by (simp add: parse_windows_timestamp_def parse_timestamp_def Let_def us_def [symmetric])
  have z: "uint ticks = 0 \<longleftrightarrow> ticks = 0" by (simp add: uint_0_iff)
  show ?thesis
    by (simp add: pt z)
qed


lemma is_round_half_even_scale:
  "is_round_half_even n (t * 1000000) 10000000 \<longleftrightarrow> is_round_half_even n t 10"
proof -
  have e: "10000000 * n - t * 1000000 = 1000000 * (10 * n - t)"
    by (simp add: algebra_simps)
  have "\<bar>10000000 * n - t * 1000000\<bar> = 1000000 * \<bar>10 * n - t\<bar>"
    unfolding e abs_mult by simp
  then show ?thesis by (simp add: is_round_half_even_def)
qed

text \<open>
  C5. A tick count read from the header is an unsigned 64-bit integer. Its decoding never
  raises. It is null for 0 and when the timestamp would lie after 9999-12-31
  23:59:59.999999 (the overflow of \<^verbatim>\<open>datetime\<close>); for every other count it is the
  timestamp \<open>us\<close> microseconds after 1601-01-01, where \<open>us\<close> is the count of 100 ns
  ticks divided by 10 and rounded half-even.
\<close>

theorem filetime_null_or_rounded_timestamp:
  fixes ticks :: "64 word"
  shows "\<exists>us. is_round_half_even us (uint ticks) 10
           \<and> datetime_from_windows_filetime (VInt (uint ticks)) =
               Inr (if ticks = 0 \<or> DATETIME_MAX_US < us then VNone
                    else VDatetime (datetime_of_us us))"
proof -
  let ?us = "quantize_half_even (uint ticks * 1000000) 10000000"
  have "is_round_half_even ?us (uint ticks * 1000000) 10000000"
    by (rule quantize_half_even_nearest) simp
  then have "is_round_half_even ?us (uint ticks) 10"
    by (simp only: is_round_half_even_scale)
  then show ?thesis using filetime_value [of ticks] by blast
qed

theorem filetime_null_or_rounded_timestamp_witness:
  "datetime_from_windows_filetime (VInt (uint (25 :: 64 word))) =
     Inr (VDatetime \<lparr>ordinal = 584389, second = 0, microsecond = 2\<rparr>)"
proof -
  obtain us where r: "is_round_half_even us (uint (25 :: 64 word)) 10"
    and v: "datetime_from_windows_filetime (VInt (uint (25 :: 64 word))) =
              Inr (if (25 :: 64 word) = 0 \<or> DATETIME_MAX_US < us then VNone
                   else VDatetime (datetime_of_us us))"
    using filetime_null_or_rounded_timestamp [of 25] by blast
  have "is_round_half_even 2 (uint (25 :: 64 word)) 10"
    by (simp add: is_round_half_even_def)
  with r have "us = 2" by (intro is_round_half_even_unique [of 10 us _ 2]) simp_all
  with v show ?thesis by (simp add: DATETIME_MAX_US_def datetime_of_us_def)
qed

subsection \<open>The length of the properties blob\<close>

text \<open>
  C10. The properties size is read as a signed 16-bit integer, so it is at most 32767 and
  the minimum with 65536 is the size itself: the clamp never reduces the length asked
  for. A negative size is handed to \<^verbatim>\<open>read\<close> as it is; the file object then returns
  the whole rest of the file for \<open>-1\<close> and raises \<^verbatim>\<open>ValueError\<close> below \<open>-1\<close>, so the
  blob is not the \<^verbatim>\<open>properties_size\<close> bytes after the table.
\<close>

theorem properties_size_never_clamped:
  assumes "parse_as_dict RUA_PROPERTY_OFFSETS_VALUES buf 0 = Inr offsets"
  shows "\<exists>properties_size.
           dict_get offsets ''properties_size'' = Some properties_size
           \<and> properties_size \<le> 32767
           \<and> blob_read_length properties_size = properties_size
           \<and> (properties_size < 0 \<longrightarrow>
                fread f (blob_read_length properties_size) =
                  (if properties_size = - 1 then Inr (read_all f) else Inl ValueError))"
proof -
  have len: "length (take 89 buf) = 89"
  proof (rule ccontr)
    assume "length (take 89 buf) \<noteq> 89"
    then have "length (take 89 buf) < 89" by simp
    then have "parse_as_dict RUA_PROPERTY_OFFSETS_VALUES (take 89 buf) 0 = Inl StructError"
      by (rule offsets_short)
    with assms show False by (simp add: offsets_parse_take [of buf])
  qed
  let ?ps = "s16_at (take 89 buf) 85"
  have "dict_get offsets ''properties_size'' = Some ?ps"
    using assms offsets_layout [OF len] by (auto simp: offsets_parse_take [of buf] dict_get_def)
  moreover have le: "?ps \<le> 32767" by (rule s16_at_le)
  moreover have "blob_read_length ?ps = ?ps"
    using le by (simp add: blob_read_length_def RUA_MAX_RECORD_SIZE_def)
  ultimately show ?thesis by (auto simp: fread_def)
qed

theorem properties_size_never_clamped_witness:
  "blob_read_length (- 2) = - 2
   \<and> fread \<lparr>content = [], pos = 0\<rparr> (blob_read_length (- 2)) = Inl ValueError"
proof -
  let ?buf = "replicate 85 0 @ [254, 255, 0, 0] :: pybytes"
  let ?f = "\<lparr>content = [], pos = 0\<rparr>"
  have len: "length ?buf = 89" by simp
  have sz: "s16_at ?buf 85 = - 2" by (simp add: s16_at_def le_uint_def)
  obtain ps where a: "dict_get (projr (parse_as_dict RUA_PROPERTY_OFFSETS_VALUES ?buf 0))
                        ''properties_size'' = Some ps"
    and b: "blob_read_length ps = ps"
    and c: "ps < 0 \<longrightarrow> fread ?f (blob_read_length ps) =
              (if ps = - 1 then Inr (read_all ?f) else Inl ValueError)"
    using properties_size_never_clamped [of ?buf _ ?f] offsets_layout [OF len]
    by (metis sum.sel(2))
  have "ps = - 2"
    using a sz unfolding offsets_layout [OF len] by (simp add: dict_get_def)
  with b c show ?thesis by simp
qed

subsection \<open>Encoded strings\<close>

text \<open>
  C3, as stated, fails: a range of length 1 whose flag byte is \<open>0x00\<close> and is followed
  by another byte of the blob decodes to the empty string, not to null.
\<close>

theorem short_range_decodes_to_empty_string:
  "read_cim_encoded_string [0, 0] 0 1 VNone VNone = (Some [], [])"
  by (simp add: read_cim_encoded_string_def py_slice_def clip_index_def
        decode_cim_encoded_string_def rstrip_def)

text \<open>
  C3, amended. A field whose range has length exactly 2, or starts at or beyond the end of
  the properties blob, decodes to null. A range shorter than 2 is not null in general:
  when its end is not negative, its flag byte is \<open>0x00\<close> or \<open>0x01\<close> and another
  byte of the blob follows the flag, the field decodes to the empty string.
\<close>

theorem encoded_string_null_ranges:
  "(end - start = 2 \<or> int (length buf) \<le> start
      \<longrightarrow> fst (read_cim_encoded_string buf start end fullpath file_offset) = None)
   \<and> (0 \<le> start \<and> start + 1 < int (length buf) \<and> 0 \<le> end \<and> end - start < 2
        \<and> (buf ! nat start = 0 \<or> buf ! nat start = 1)
      \<longrightarrow> read_cim_encoded_string buf start end fullpath file_offset = (Some [], []))"
proof (intro conjI impI)
  assume "end - start = 2 \<or> int (length buf) \<le> start"
  then show "fst (read_cim_encoded_string buf start end fullpath file_offset) = None"
  proof
    assume "end - start = 2"
    then show ?thesis by (simp add: read_cim_encoded_string_def)
  next
    assume "int (length buf) \<le> start"
    then have "py_slice buf start (start + 1) = []" by (rule py_slice_past_end)
    then show ?thesis by (simp add: read_cim_encoded_string_def Let_def)
  qed
next
  assume a: "0 \<le> start \<and> start + 1 < int (length buf) \<and> 0 \<le> end \<and> end - start < 2
        \<and> (buf ! nat start = 0 \<or> buf ! nat start = 1)"
  then have flag: "py_slice buf start (start + 1) = [buf ! nat start]"
    by (intro py_slice_one) simp_all
  have nxt: "py_slice buf (start + 1) (start + 2) = [buf ! nat (start + 1)]"
    using a py_slice_one [of "start + 1" buf] by (simp add: add.assoc)
  have body: "py_slice buf (start + 1) end = []"
    using a by (intro py_slice_empty_range) simp_all
  show "read_cim_encoded_string buf start end fullpath file_offset = (Some [], [])"
    using a by (auto simp: read_cim_encoded_string_def Let_def flag nxt body decode_empty)
qed

text \<open>
  The amended C3 at concrete fields: a range of length 2, a range starting at the end of
  the blob, and a range of length 1.
\<close>

theorem encoded_string_null_ranges_witness:
  "fst (read_cim_encoded_string [0, 65] 0 2 VNone VNone) = None
   \<and> fst (read_cim_encoded_string [0, 65] 2 5 VNone VNone) = None
   \<and> read_cim_encoded_string [1, 0] 0 1 VNone VNone = (Some [], [])"
  using encoded_string_null_ranges [of 2 0 "[0, 65]" VNone VNone] encoded_string_null_ranges [of 5 2 "[0, 65]" VNone VNone]
    encoded_string_null_ranges [of 1 0 "[1, 0]" VNone VNone]
  by simp

text \<open>
  C4, as stated, fails: with the flag byte \<open>0x05\<close> and a range of length 2 the field is
  null, but nothing is printed.
\<close>

theorem bad_flag_length_two_no_diagnostic:
  "read_cim_encoded_string [5, 0] 0 2 VNone VNone = (None, [])"
  by (simp add: read_cim_encoded_string_def)

text \<open>
  C4, amended. A field whose flag byte is neither \<open>0x00\<close> nor \<open>0x01\<close> decodes to null;
  the function returns a value on every input, so nothing is raised. The diagnostic, with
  the flag byte, the offset handed in and the file identity, is printed unless the range
  has length exactly 2, where the function returns before it looks at the flag.
\<close>

theorem bad_flag_yields_null:
  assumes "0 \<le> start" "start < int (length buf)"
    and "buf ! nat start \<noteq> 0" "buf ! nat start \<noteq> 1"
  shows "read_cim_encoded_string buf start end fullpath file_offset =
           (None, if end - start = 2 then []
                  else [UnexpectedFlag [buf ! nat start] file_offset fullpath])"
proof -
  have "py_slice buf start (start + 1) = [buf ! nat start]"
    using assms by (intro py_slice_one)
  then show ?thesis using assms by (simp add: read_cim_encoded_string_def Let_def)
qed

text \<open>
  The amended C4 at a field of length 3 with the flag byte \<open>0x05\<close>.
\<close>

theorem bad_flag_yields_null_witness:
  "read_cim_encoded_string [5, 65, 0] 0 3 (VStr (str_of ''f'')) (VInt 7) =
     (None, [UnexpectedFlag [5] (VInt 7) (VStr (str_of ''f''))])"
  using bad_flag_yields_null [of 0 "[5, 65, 0]" 3 "VStr (str_of ''f'')" "VInt 7"]
  by simp

subsection \<open>Derived fields\<close>

lemma dict_get_dict_set:
  "dict_get (dict_set k v d) k' = (if k' = k then Some v else dict_get d k')"
  by (induction d) (auto simp: dict_get_def)

lemma get_or_empty_dict_set:
  "k' \<noteq> k \<Longrightarrow> get_or_empty (dict_set k v d) k' = get_or_empty d k'"
  by (simp add: get_or_empty_def dict_get_dict_set)

lemma get_or_empty_VStr:
  "get_or_empty record k = VStr s \<Longrightarrow> s = str_field record k"
  by (auto simp: get_or_empty_def str_field_def split: option.splits pyval.splits if_splits)

lemma endswith_last: "endswith s c \<longleftrightarrow> s \<noteq> [] \<and> last s = c"
  by (cases s rule: rev_cases) (simp_all add: endswith_def)

lemma parse_fields_Inr:
  assumes "parse_fields env record = Inr record'"
  shows "\<exists>r2. record' =
           dict_set ''file_extension''
             (str_or_none (py_lower env (filter (\<lambda>c. c \<noteq> DOT)
                (snd (splitext (flavour env) (str_field record ''explorer_filename''))))))
             (dict_set ''full_path''
                (str_or_none (str_field record ''folder_path''
                   @ (if endswith (str_field record ''folder_path'') BACKSLASH then []
                      else [BACKSLASH])
                   @ str_field record ''explorer_filename'')) r2)"
proof -
  from assms obtain lu lu' lj lj' fp fn where
    g1: "get_or_empty (dict_set ''last_joined_sccm'' lj' (dict_set ''last_updated'' lu' record))
           ''folder_path'' = VStr fp"
    and g2: "get_or_empty (dict_set ''last_joined_sccm'' lj' (dict_set ''last_updated'' lu' record))
           ''explorer_filename'' = VStr fn"
    and r: "record' = dict_set ''file_extension''
             (str_or_none (py_lower env (filter (\<lambda>c. c \<noteq> DOT) (snd (splitext (flavour env) fn)))))
             (dict_set ''full_path''
                (str_or_none (fp @ (if endswith fp BACKSLASH then [] else [BACKSLASH]) @ fn))
                (dict_set ''last_joined_sccm'' lj' (dict_set ''last_updated'' lu' record)))"
    by (auto simp: parse_fields_def Let_def split: option.splits sum.splits pyval.splits)
  have "fp = str_field record ''folder_path''"
    using g1 by (intro get_or_empty_VStr) (simp add: get_or_empty_dict_set)
  moreover have "fn = str_field record ''explorer_filename''"
    using g2 by (intro get_or_empty_VStr) (simp add: get_or_empty_dict_set)
  ultimately show ?thesis using r by blast
qed

lemma test_splitext: "snd (splitext fl TEST_EXPLORER_FILENAME) = str_of ''.exe''"
proof (cases fl)
  case Posix
  have "snd (splitext Posix TEST_EXPLORER_FILENAME) = str_of ''.exe''" by code_simp
  with Posix show ?thesis by simp
next
  case Nt
  have "snd (splitext Nt TEST_EXPLORER_FILENAME) = str_of ''.exe''" by code_simp
  with Nt show ?thesis by simp
qed

lemma test_lower: "py_lower env (filter (\<lambda>c. c \<noteq> DOT) (str_of ''.exe'')) = str_of ''exe''"
  by (simp add: py_lower_def str_of_def DOT_def ascii_lower_def)

lemma test_join: "TEST_FOLDER_PATH
    @ (if endswith TEST_FOLDER_PATH BACKSLASH then [] else [BACKSLASH])
    @ TEST_EXPLORER_FILENAME = TEST_FULL_PATH"
  by (simp add: TEST_FOLDER_PATH_def TEST_FULL_PATH_def TEST_EXPLORER_FILENAME_def endswith_def)

text \<open>
  C7. In the record \<^verbatim>\<open>parse_fields\<close> returns, \<^verbatim>\<open>full_path\<close> is the folder path, a
  backslash unless the folder path already ends with one, and the file name; it is null
  if that string is empty. For the folder path and the file name of the test record the
  full path is the expected one and the extension is \<open>exe\<close>, on either platform.
\<close>

theorem full_path_and_extension:
  assumes "parse_fields env record = Inr record'"
  shows "dict_get record' ''full_path'' =
           Some (let folder_path = str_field record ''folder_path'';
                     explorer_filename = str_field record ''explorer_filename'';
                     joined = folder_path
                       @ (if folder_path \<noteq> [] \<and> last folder_path = BACKSLASH then []
                          else [BACKSLASH])
                       @ explorer_filename
                 in if joined = [] then VNone else VStr joined)
         \<and> (dict_get record ''folder_path'' = Some (VStr TEST_FOLDER_PATH)
              \<and> dict_get record ''explorer_filename'' = Some (VStr TEST_EXPLORER_FILENAME)
            \<longrightarrow> dict_get record' ''full_path'' = Some (VStr TEST_FULL_PATH)
                \<and> dict_get record' ''file_extension'' = Some (VStr (str_of ''exe'')))"
proof -
  from parse_fields_Inr [OF assms] obtain r2 where
    r: "record' =
           dict_set ''file_extension''
             (str_or_none (py_lower env (filter (\<lambda>c. c \<noteq> DOT)
                (snd (splitext (flavour env) (str_field record ''explorer_filename''))))))
             (dict_set ''full_path''
                (str_or_none (str_field record ''folder_path''
                   @ (if endswith (str_field record ''folder_path'') BACKSLASH then []
                      else [BACKSLASH])
                   @ str_field record ''explorer_filename'')) r2)"
    by blast
  have a: "dict_get record' ''full_path'' =
      Some (str_or_none (str_field record ''folder_path''
                   @ (if endswith (str_field record ''folder_path'') BACKSLASH then []
                      else [BACKSLASH])
                   @ str_field record ''explorer_filename''))"
    unfolding r by (simp add: dict_get_dict_set)
  have b: "dict_get record' ''file_extension'' =
      Some (str_or_none (py_lower env (filter (\<lambda>c. c \<noteq> DOT)
                (snd (splitext (flavour env) (str_field record ''explorer_filename''))))))"
    unfolding r by (simp add: dict_get_dict_set)
  have first: "dict_get record' ''full_path'' =
           Some (let folder_path = str_field record ''folder_path'';
                     explorer_filename = str_field record ''explorer_filename'';
                     joined = folder_path
                       @ (if folder_path \<noteq> [] \<and> last folder_path = BACKSLASH then []
                          else [BACKSLASH])
                       @ explorer_filename
                 in if joined = [] then VNone else VStr joined)"
    unfolding a by (simp add: Let_def str_or_none_def endswith_last)
  have second: "dict_get record' ''full_path'' = Some (VStr TEST_FULL_PATH)
                \<and> dict_get record' ''file_extension'' = Some (VStr (str_of ''exe''))"
    if "dict_get record ''folder_path'' = Some (VStr TEST_FOLDER_PATH)"
      and "dict_get record ''explorer_filename'' = Some (VStr TEST_EXPLORER_FILENAME)"
  proof -
    have f: "str_field record ''folder_path'' = TEST_FOLDER_PATH"
      and n: "str_field record ''explorer_filename'' = TEST_EXPLORER_FILENAME"
      using that by (simp_all add: str_field_def)
    have ne: "TEST_FULL_PATH \<noteq> []" by (simp add: TEST_FULL_PATH_def str_of_def)
    have "dict_get record' ''full_path'' = Some (VStr TEST_FULL_PATH)"
      unfolding a f n test_join using ne by (simp add: str_or_none_def)
    moreover have "dict_get record' ''file_extension'' = Some (VStr (str_of ''exe''))"
      unfolding b n test_splitext test_lower by (simp add: str_or_none_def str_of_def)
    ultimately show ?thesis by simp
  qed
  show ?thesis using first second by blast
qed

text \<open>
  C7 at the test record, with \<^verbatim>\<open>parse_fields\<close> evaluated on it.
\<close>

theorem full_path_and_extension_witness:
  "dict_get (projr (parse_fields \<lparr>flavour = Nt, unicode_lower = id\<rparr> TEST_RECORD)) ''full_path''
     = Some (VStr TEST_FULL_PATH)
   \<and> dict_get (projr (parse_fields \<lparr>flavour = Nt, unicode_lower = id\<rparr> TEST_RECORD))
       ''file_extension'' = Some (VStr (str_of ''exe''))"
proof -
  let ?env = "\<lparr>flavour = Nt, unicode_lower = id\<rparr>"
  have ok: "parse_fields ?env TEST_RECORD
              = Inr (projr (parse_fields ?env TEST_RECORD))"
    by (simp add: parse_fields_def TEST_RECORD_def dict_get_def get_or_empty_def Let_def
          TEST_FOLDER_PATH_def TEST_EXPLORER_FILENAME_def str_of_def)
  have "dict_get TEST_RECORD ''folder_path'' = Some (VStr TEST_FOLDER_PATH)"
    and "dict_get TEST_RECORD ''explorer_filename'' = Some (VStr TEST_EXPLORER_FILENAME)"
    by (simp_all add: TEST_RECORD_def dict_get_def)
  with full_path_and_extension [OF ok] show ?thesis by blast
qed

subsection \<open>One signature match\<close>

lemma read_upto_enough:
  assumes "pos f + n \<le> length (content f)"
  shows "read_upto f n = (take n (drop (pos f) (content f)), f\<lparr>pos := pos f + n\<rparr>)"
  using assms by (simp add: read_upto_def Let_def min_def)

lemma read_upto_short:
  assumes "length (content f) < pos f + n" "0 < n"
  shows "length (fst (read_upto f n)) < n"
  using assms by (simp add: read_upto_def Let_def)

lemma record_type_cases:
  "map_of RECENTLY_USED_APPS_TYPES n = Some rt \<longleftrightarrow>
     (n = 128 \<and> rt = ''Vista'') \<or> (n = 64 \<and> rt = ''XP'')"
  by (auto simp: RECENTLY_USED_APPS_TYPES_def)

lemma process_hit_header_ok:
  assumes rt: "map_of RECENTLY_USED_APPS_TYPES (snd m - fst m) = Some rt"
    and len: "snd m + 30 \<le> length (content f)"
  shows "process_hit env f m fullpath =
     (let hdr = take 30 (drop (snd m) (content f));
          record_size = u32_at hdr 16;
          (res, f2, d) =
            decode_properties env (f\<lparr>pos := snd m + 30\<rparr>)
              [(''input_file_path'', fullpath),
               (''offset'', VInt (int (fst m))),
               (''record_type'', VStr (str_of rt)),
               (''last_updated'', VInt (u64_at hdr 0)),
               (''last_joined_sccm'', VInt (u64_at hdr 8))]
              fullpath (fst m)
      in (res, f2,
          (if RUA_MAX_RECORD_SIZE < record_size
           then [RecordSizeTooLarge record_size RUA_MAX_RECORD_SIZE (fst m) fullpath]
           else []) @ d))"
proof -
  let ?hdr = "take 30 (drop (snd m) (content f))"
  have l: "length ?hdr = 30" using len by simp
  have rd: "read_upto (seek f (snd m)) (struct_size RUA_RECORD_HEADER) =
              (?hdr, f\<lparr>pos := snd m + 30\<rparr>)"
    using len by (simp add: struct_size_header read_upto_enough seek_def)
  show ?thesis
    unfolding process_hit_def Let_def rt rd
    by (simp add: header_layout [OF l] dict_update_def dict_get_def dict_del_def)
qed

lemma process_hit_header_short:
  assumes rt: "map_of RECENTLY_USED_APPS_TYPES (snd m - fst m) = Some rt"
    and len: "length (content f) < snd m + 30"
  shows "process_hit env f m fullpath =
     (Inr [(''input_file_path'', fullpath),
           (''offset'', VInt (int (fst m))),
           (''record_type'', VStr (str_of rt))],
      snd (read_upto (seek f (snd m)) 30),
      [CouldNotDecodeHeader (fst m) fullpath])"
proof -
  have "length (fst (read_upto (seek f (snd m)) 30)) < 30"
    using len by (intro read_upto_short) (simp_all add: seek_def)
  then have "parse_as_dict RUA_RECORD_HEADER (fst (read_upto (seek f (snd m)) 30)) 0 =
      Inl StructError" by (rule header_short)
  then show ?thesis
    unfolding process_hit_def Let_def rt
    by (simp add: struct_size_header split_beta)
qed

lemma get_prop_offsets_short:
  assumes "length (content f) < pos f + 89"
  shows "get_prop_offsets f record fullpath hash_start =
           (None, record, snd (read_upto f 89), [CouldNotDecodeOffsets hash_start fullpath])"
proof -
  have "length (fst (read_upto f 89)) < 89" using assms by (intro read_upto_short) simp_all
  then have "parse_as_dict RUA_PROPERTY_OFFSETS_VALUES (fst (read_upto f 89)) 0 =
      Inl StructError" by (rule offsets_short)
  then show ?thesis
    by (simp add: get_prop_offsets_def struct_size_offsets split_beta)
qed

lemma get_prop_offsets_enough:
  assumes "pos f + 89 \<le> length (content f)"
  shows "get_prop_offsets f record fullpath hash_start =
     (let tbl = take 89 (drop (pos f) (content f))
      in (Some [(''folder_path'', u32_at tbl 0),
                (''explorer_filename'', u32_at tbl 4),
                (''last_username'', u32_at tbl 8),
                (''original_filename'', u32_at tbl 12),
                (''file_version'', u32_at tbl 16),
                (''product_name'', u32_at tbl 24),
                (''product_version'', u32_at tbl 28),
                (''company_name'', u32_at tbl 32),
                (''file_description'', u32_at tbl 40),
                (''last_used_time'', u32_at tbl 48),
                (''product_code'', u32_at tbl 52),
                (''additional_product_codes'', u32_at tbl 56),
                (''msi_display_name'', u32_at tbl 60),
                (''msi_publisher'', u32_at tbl 64),
                (''msi_version'', u32_at tbl 68),
                (''software_properties_hash'', u32_at tbl 72),
                (''file_properties_hash'', u32_at tbl 76),
                (''properties_size'', s16_at tbl 85)],
          dict_update record
            [(''file_size'', VInt (u32_at tbl 20)),
             (''launch_count'', VInt (u32_at tbl 44)),
             (''product_language'', VInt (u32_at tbl 36))],
          f\<lparr>pos := pos f + 89\<rparr>, []))"
proof -
  let ?tbl = "take 89 (drop (pos f) (content f))"
  have l: "length ?tbl = 89" using assms by simp
  show ?thesis
    unfolding get_prop_offsets_def struct_size_offsets read_upto_enough [OF assms] Let_def
    by (simp add: offsets_layout [OF l] RUA_PROPERTY_VALUE_FIELDS_def dict_del_def
          pop_or_none_def dict_get_def)
qed

subsection \<open>The offset table\<close>

text \<open>
  C1, as stated, fails. A table of 86 bytes, the size of 19 integers, 6 pad bytes, the
  2-byte size and 2 trailing bytes, does not decode. In a table of 89 bytes whose bytes 76
  to 79 hold 7 and whose bytes 85 and 86 hold 3, the 7 is read as a twentieth integer, the
  offset of \<^verbatim>\<open>file_properties_hash\<close>, 17 offsets remain beside \<^verbatim>\<open>properties_size\<close>, and
  \<^verbatim>\<open>properties_size\<close> is 3: it is read after 4 + 1 pad bytes, not after 5 + 1.
\<close>

theorem offset_table_has_twenty_integers:
  "fst (get_prop_offsets \<lparr>content = replicate 86 0, pos = 0\<rparr> [] VNone 0) = None
   \<and> fst (get_prop_offsets
            \<lparr>content = replicate 76 0 @ [7, 0, 0, 0] @ [0, 0, 0, 0] @ [0] @ [3, 0] @ [0, 0],
             pos = 0\<rparr> [] VNone 0) =
       Some [(''folder_path'', 0), (''explorer_filename'', 0), (''last_username'', 0),
             (''original_filename'', 0), (''file_version'', 0), (''product_name'', 0),
             (''product_version'', 0), (''company_name'', 0), (''file_description'', 0),
             (''last_used_time'', 0), (''product_code'', 0),
             (''additional_product_codes'', 0), (''msi_display_name'', 0),
             (''msi_publisher'', 0), (''msi_version'', 0),
             (''software_properties_hash'', 0), (''file_properties_hash'', 7),
             (''properties_size'', 3)]"
  by code_simp

text \<open>
  C1, amended. The decoder reads 89 bytes: 20 consecutive little-endian unsigned 4-byte
  integers at bytes 0, 4, ..., 76, of which 17 are offsets into the properties blob and 3
  (\<^verbatim>\<open>file_size\<close> at 20, \<^verbatim>\<open>product_language\<close> at 36, \<^verbatim>\<open>launch_count\<close> at 44) are values
  that leave the offset set and go into the record; then 4 pad bytes and 1 pad byte
  (bytes 80 to 84), the signed 2-byte \<^verbatim>\<open>properties_size\<close> at bytes 85 and 86, and 2
  trailing pad bytes. With fewer than 89 bytes left in the file nothing is decoded.
\<close>

theorem offset_table_layout:
  "(pos f + 89 \<le> length (content f) \<longrightarrow>
      get_prop_offsets f record fullpath hash_start =
        (let tbl = take 89 (drop (pos f) (content f))
         in (Some [(''folder_path'', u32_at tbl 0),
                   (''explorer_filename'', u32_at tbl 4),
                   (''last_username'', u32_at tbl 8),
                   (''original_filename'', u32_at tbl 12),
                   (''file_version'', u32_at tbl 16),
                   (''product_name'', u32_at tbl 24),
                   (''product_version'', u32_at tbl 28),
                   (''company_name'', u32_at tbl 32),
                   (''file_description'', u32_at tbl 40),
                   (''last_used_time'', u32_at tbl 48),
                   (''product_code'', u32_at tbl 52),
                   (''additional_product_codes'', u32_at tbl 56),
                   (''msi_display_name'', u32_at tbl 60),
                   (''msi_publisher'', u32_at tbl 64),
                   (''msi_version'', u32_at tbl 68),
                   (''software_properties_hash'', u32_at tbl 72),
                   (''file_properties_hash'', u32_at tbl 76),
                   (''properties_size'', s16_at tbl 85)],
             dict_update record
               [(''file_size'', VInt (u32_at tbl 20)),
                (''launch_count'', VInt (u32_at tbl 44)),
                (''product_language'', VInt (u32_at tbl 36))],
             f\<lparr>pos := pos f + 89\<rparr>, [])))
   \<and> (length (content f) < pos f + 89 \<longrightarrow>
        fst (get_prop_offsets f record fullpath hash_start) = None)"
  using get_prop_offsets_enough get_prop_offsets_short by simp

text \<open>
  The amended C1 at a table of 89 bytes and at a file of 88 bytes.
\<close>

theorem offset_table_layout_witness:
  "get_prop_offsets
      \<lparr>content = replicate 20 1 @ [64, 0, 0, 0] @ replicate 61 2 @ [255, 255, 0, 0], pos = 0\<rparr>
      [] VNone 0 =
     (Some [(''folder_path'', 16843009), (''explorer_filename'', 16843009),
            (''last_username'', 16843009), (''original_filename'', 16843009),
            (''file_version'', 16843009), (''product_name'', 33686018),
            (''product_version'', 33686018), (''company_name'', 33686018),
            (''file_description'', 33686018), (''last_used_time'', 33686018),
            (''product_code'', 33686018), (''additional_product_codes'', 33686018),
            (''msi_display_name'', 33686018), (''msi_publisher'', 33686018),
            (''msi_version'', 33686018), (''software_properties_hash'', 33686018),
            (''file_properties_hash'', 33686018), (''properties_size'', - 1)],
      [(''file_size'', VInt 64), (''launch_count'', VInt 33686018),
       (''product_language'', VInt 33686018)],
      \<lparr>content = replicate 20 1 @ [64, 0, 0, 0] @ replicate 61 2 @ [255, 255, 0, 0], pos = 89\<rparr>,
      [])
   \<and> fst (get_prop_offsets \<lparr>content = replicate 88 0, pos = 0\<rparr> [] VNone 0) = None"
proof -
  let ?c = "replicate 20 1 @ [64, 0, 0, 0] @ replicate 61 2 @ [255, 255, 0, 0] :: pybytes"
  have u: "u32_at ?c 0 = 16843009" "u32_at ?c 4 = 16843009" "u32_at ?c 8 = 16843009"
    "u32_at ?c 12 = 16843009" "u32_at ?c 16 = 16843009" "u32_at ?c 20 = 64"
    "u32_at ?c 24 = 33686018" "u32_at ?c 28 = 33686018" "u32_at ?c 32 = 33686018"
    "u32_at ?c 36 = 33686018" "u32_at ?c 40 = 33686018" "u32_at ?c 44 = 33686018"
    "u32_at ?c 48 = 33686018" "u32_at ?c 52 = 33686018" "u32_at ?c 56 = 33686018"
    "u32_at ?c 60 = 33686018" "u32_at ?c 64 = 33686018" "u32_at ?c 68 = 33686018"
    "u32_at ?c 72 = 33686018" "u32_at ?c 76 = 33686018" "s16_at ?c 85 = - 1"
    by code_simp+
  have a: "get_prop_offsets \<lparr>content = ?c, pos = 0\<rparr> [] VNone 0 = 
     (Some [(''folder_path'', 16843009), (''explorer_filename'', 16843009),
            (''last_username'', 16843009), (''original_filename'', 16843009),
            (''file_version'', 16843009), (''product_name'', 33686018),
            (''product_version'', 33686018), (''company_name'', 33686018),
            (''file_description'', 33686018), (''last_used_time'', 33686018),
            (''product_code'', 33686018), (''additional_product_codes'', 33686018),
            (''msi_display_name'', 33686018), (''msi_publisher'', 33686018),
            (''msi_version'', 33686018), (''software_properties_hash'', 33686018),
            (''file_properties_hash'', 33686018), (''properties_size'', - 1)],
      [(''file_size'', VInt 64), (''launch_count'', VInt 33686018),
       (''product_language'', VInt 33686018)],
      \<lparr>content = ?c, pos = 89\<rparr>, [])"
    using offset_table_layout [of "\<lparr>content = ?c, pos = 0\<rparr>" "[]" VNone 0] u
    by (simp add: dict_update_def)
  have b: "fst (get_prop_offsets \<lparr>content = replicate 88 0, pos = 0\<rparr> [] VNone 0) = None"
    using offset_table_layout [of "\<lparr>content = replicate 88 0, pos = 0\<rparr>" "[]" VNone 0] by simp
  show ?thesis using a b by blast
qed

subsection \<open>A record with an all-zero offset table\<close>

lemma header_fields_at:
  assumes "e + 30 \<le> length c"
  shows "u64_at (take 30 (drop e c)) 0 = u64_at c e"
    and "u64_at (take 30 (drop e c)) 8 = u64_at c (e + 8)"
    and "u32_at (take 30 (drop e c)) 16 = u32_at c (e + 16)"
  by (simp_all add: u64_at_def u32_at_def drop_take add.commute)

lemma zero_table_len: "length (content ZERO_TABLE_FILE) = 183"
  by (simp add: ZERO_TABLE_FILE_def SIG_XP_def encode_utf16le_def)

lemma zero_table_tbl: "take 89 (drop 94 (content ZERO_TABLE_FILE)) = replicate 89 0"
  by (simp add: ZERO_TABLE_FILE_def SIG_XP_def encode_utf16le_def)

lemma le_uint_zeros: "le_uint (replicate n 0) = 0"
  by (induction n) (simp_all add: le_uint_def)

lemma zero_u32: "u32_at (replicate 89 0) k = 0"
  by (simp add: u32_at_def le_uint_zeros)

lemma zero_s16: "s16_at (replicate 89 0) 85 = 0"
  by code_simp

lemma zero_table_offsets:
  "get_prop_offsets (ZERO_TABLE_FILE\<lparr>pos := 94\<rparr>)
       [(''input_file_path'', VNone), (''offset'', VInt 0),
       (''record_type'', VStr (str_of ''XP'')),
       (''last_updated'', VInt 0), (''last_joined_sccm'', VInt 0)] VNone 0 =
     (Some [(''folder_path'', 0), (''explorer_filename'', 0), (''last_username'', 0),
     (''original_filename'', 0), (''file_version'', 0), (''product_name'', 0),
     (''product_version'', 0), (''company_name'', 0), (''file_description'', 0),
     (''last_used_time'', 0), (''product_code'', 0), (''additional_product_codes'', 0),
     (''msi_display_name'', 0), (''msi_publisher'', 0), (''msi_version'', 0),
     (''software_properties_hash'', 0), (''file_properties_hash'', 0),
     (''properties_size'', 0)],
      [(''input_file_path'', VNone), (''offset'', VInt 0),
       (''record_type'', VStr (str_of ''XP'')),
       (''last_updated'', VInt 0), (''last_joined_sccm'', VInt 0),
       (''file_size'', VInt 0), (''launch_count'', VInt 0), (''product_language'', VInt 0)],
      ZERO_TABLE_FILE\<lparr>pos := 183\<rparr>, [])"
proof -
  have e: "pos (ZERO_TABLE_FILE\<lparr>pos := 94\<rparr>) + 89 \<le> length (content (ZERO_TABLE_FILE\<lparr>pos := 94\<rparr>))"
    by (simp add: zero_table_len)
  show ?thesis
    unfolding get_prop_offsets_enough [OF e] Let_def
    by (simp add: zero_table_tbl zero_u32 zero_s16 dict_update_def)
qed

lemma zero_table_sorted:
  "sorted_offsets_of (dict_del ''properties_size'' [(''folder_path'', 0),
  (''explorer_filename'', 0), (''last_username'', 0), (''original_filename'', 0),
  (''file_version'', 0), (''product_name'', 0), (''product_version'', 0),
  (''company_name'', 0), (''file_description'', 0), (''last_used_time'', 0),
  (''product_code'', 0), (''additional_product_codes'', 0), (''msi_display_name'', 0),
  (''msi_publisher'', 0), (''msi_version'', 0), (''software_properties_hash'', 0),
  (''file_properties_hash'', 0), (''properties_size'', 0)]) = [(''folder_path'', 0),
  (''explorer_filename'', 0), (''last_username'', 0), (''original_filename'', 0),
  (''file_version'', 0), (''product_name'', 0), (''product_version'', 0),
  (''company_name'', 0), (''file_description'', 0), (''last_used_time'', 0),
  (''product_code'', 0), (''additional_product_codes'', 0), (''msi_display_name'', 0),
  (''msi_publisher'', 0), (''msi_version'', 0), (''software_properties_hash'', 0),
  (''file_properties_hash'', 0)]"
  by (simp add: sorted_offsets_of_def dict_del_def)

lemma zero_table_ranges:
  "field_ranges [(''folder_path'', 0), (''explorer_filename'', 0), (''last_username'', 0),
  (''original_filename'', 0), (''file_version'', 0), (''product_name'', 0),
  (''product_version'', 0), (''company_name'', 0), (''file_description'', 0),
  (''last_used_time'', 0), (''product_code'', 0), (''additional_product_codes'', 0),
  (''msi_display_name'', 0), (''msi_publisher'', 0), (''msi_version'', 0),
  (''software_properties_hash'', 0),
  (''file_properties_hash'', 0)] 0 = [(''folder_path'', 0, 0),
  (''explorer_filename'', 0, 0), (''last_username'', 0, 0), (''original_filename'', 0, 0),
  (''file_version'', 0, 0), (''product_name'', 0, 0), (''product_version'', 0, 0),
  (''company_name'', 0, 0), (''file_description'', 0, 0), (''last_used_time'', 0, 0),
  (''product_code'', 0, 0), (''additional_product_codes'', 0, 0),
  (''msi_display_name'', 0, 0), (''msi_publisher'', 0, 0), (''msi_version'', 0, 0),
  (''software_properties_hash'', 0, 0), (''file_properties_hash'', 0, 0)]"
  by code_simp

lemma empty_blob_field:
  "read_field [] VNone 0 (n, 0, 0) acc =
     (dict_set n VNone (fst acc), snd acc @ [UnexpectedFlag [] (VInt 0) VNone])"
  by (simp add: read_field_def read_cim_encoded_string_def py_slice_def clip_index_def
        val_of_str_def)

lemma zero_table_fields:
  "read_fields [] [(''folder_path'', 0), (''explorer_filename'', 0),
  (''last_username'', 0), (''original_filename'', 0), (''file_version'', 0),
  (''product_name'', 0), (''product_version'', 0), (''company_name'', 0),
  (''file_description'', 0), (''last_used_time'', 0), (''product_code'', 0),
  (''additional_product_codes'', 0), (''msi_display_name'', 0), (''msi_publisher'', 0),
  (''msi_version'', 0), (''software_properties_hash'', 0),
  (''file_properties_hash'', 0)] 0 VNone 0 [(''input_file_path'', VNone),
  (''offset'', VInt 0),
       (''record_type'', VStr (str_of ''XP'')),
       (''last_updated'', VInt 0), (''last_joined_sccm'', VInt 0),
       (''file_size'', VInt 0), (''launch_count'', VInt 0), (''product_language'', VInt 0)] =
     ([(''input_file_path'', VNone), (''offset'', VInt 0),
       (''record_type'', VStr (str_of ''XP'')),
       (''last_updated'', VInt 0), (''last_joined_sccm'', VInt 0),
       (''file_size'', VInt 0), (''launch_count'', VInt 0), (''product_language'', VInt 0),
       (''folder_path'', VNone), (''explorer_filename'', VNone),
       (''last_username'', VNone), (''original_filename'', VNone),
       (''file_version'', VNone), (''product_name'', VNone), (''product_version'', VNone),
       (''company_name'', VNone), (''file_description'', VNone),
       (''last_used_time'', VNone), (''product_code'', VNone),
       (''additional_product_codes'', VNone), (''msi_display_name'', VNone),
       (''msi_publisher'', VNone), (''msi_version'', VNone),
       (''software_properties_hash'', VNone), (''file_properties_hash'', VNone)],
      replicate 17 (UnexpectedFlag [] (VInt 0) VNone))"
  unfolding read_fields_def zero_table_ranges
  by (simp add: empty_blob_field numeral_eq_Suc)

lemma zero_table_parse_fields:
  "parse_fields ENV0 [(''input_file_path'', VNone), (''offset'', VInt 0),
       (''record_type'', VStr (str_of ''XP'')),
       (''last_updated'', VInt 0), (''last_joined_sccm'', VInt 0),
       (''file_size'', VInt 0), (''launch_count'', VInt 0), (''product_language'', VInt 0),
       (''folder_path'', VNone), (''explorer_filename'', VNone),
       (''last_username'', VNone), (''original_filename'', VNone),
       (''file_version'', VNone), (''product_name'', VNone), (''product_version'', VNone),
       (''company_name'', VNone), (''file_description'', VNone),
       (''last_used_time'', VNone), (''product_code'', VNone),
       (''additional_product_codes'', VNone), (''msi_display_name'', VNone),
       (''msi_publisher'', VNone), (''msi_version'', VNone),
       (''software_properties_hash'', VNone),
       (''file_properties_hash'', VNone)] = Inr ZERO_TABLE_RECORD"
  by (simp add: parse_fields_def dict_get_def get_or_empty_def Let_def ZERO_TABLE_RECORD_def
        endswith_def str_or_none_def splitext_def splitext_generic_def ENV0_def rfind_def
        py_lower_def py_slice_def clip_index_def)

lemma zero_table_decode:
  "decode_properties ENV0 (ZERO_TABLE_FILE\<lparr>pos := 94\<rparr>)
       [(''input_file_path'', VNone), (''offset'', VInt 0),
       (''record_type'', VStr (str_of ''XP'')),
       (''last_updated'', VInt 0), (''last_joined_sccm'', VInt 0)] VNone 0 =
     (Inr ZERO_TABLE_RECORD, ZERO_TABLE_FILE\<lparr>pos := 183\<rparr>,
      replicate 17 (UnexpectedFlag [] (VInt 0) VNone))"
  unfolding decode_properties_def zero_table_offsets
  by (simp add: dict_get_def blob_read_length_def RUA_MAX_RECORD_SIZE_def fread_def
        read_upto_def zero_table_len zero_table_sorted [unfolded dict_del_def, simplified]
        dict_del_def zero_table_fields zero_table_parse_fields)

subsection \<open>The record size\<close>

text \<open>
  C9. When the header of a match is complete, a record size above 65536 has one effect:
  a diagnostic with the size, the limit, the offset of the match and the file identity is
  printed first. The outcome, the file position and the other diagnostics are those of
  the decoding of the offset table, the blob and the fields, which runs on the same
  record and from the same position whatever the record size is.
\<close>

theorem oversized_record_size_only_reported:
  assumes rt: "map_of RECENTLY_USED_APPS_TYPES (snd m - fst m) = Some rt"
    and len: "snd m + 30 \<le> length (content f)"
  shows "process_hit env f m fullpath =
     (case decode_properties env (f\<lparr>pos := snd m + 30\<rparr>)
             [(''input_file_path'', fullpath),
              (''offset'', VInt (int (fst m))),
              (''record_type'', VStr (str_of rt)),
              (''last_updated'', VInt (u64_at (content f) (snd m))),
              (''last_joined_sccm'', VInt (u64_at (content f) (snd m + 8)))]
             fullpath (fst m) of
        (res, f2, d) \<Rightarrow>
          (res, f2,
           (if 65536 < u32_at (content f) (snd m + 16)
            then [RecordSizeTooLarge (u32_at (content f) (snd m + 16)) 65536 (fst m) fullpath]
            else []) @ d))"
  unfolding process_hit_header_ok [OF rt len] Let_def header_fields_at [OF len]
  by (simp add: RUA_MAX_RECORD_SIZE_def)

text \<open>
  C9 at the file whose record size is 70000: the diagnostic is printed and the record is
  decoded to its end.
\<close>

theorem oversized_record_size_only_reported_witness:
  "process_hit ENV0 ZERO_TABLE_FILE (0, 64) VNone =
     (Inr ZERO_TABLE_RECORD, ZERO_TABLE_FILE\<lparr>pos := 183\<rparr>,
      RecordSizeTooLarge 70000 65536 0 VNone
        # replicate 17 (UnexpectedFlag [] (VInt 0) VNone))"
proof -
  let ?m = "(0 :: nat, 64 :: nat)"
  have rt: "map_of RECENTLY_USED_APPS_TYPES (snd ?m - fst ?m) = Some ''XP''"
    by (simp add: RECENTLY_USED_APPS_TYPES_def)
  have len: "snd ?m + 30 \<le> length (content ZERO_TABLE_FILE)"
    by (simp add: zero_table_len)
  have u: "u64_at (content ZERO_TABLE_FILE) 64 = 0" "u64_at (content ZERO_TABLE_FILE) 72 = 0"
    "u32_at (content ZERO_TABLE_FILE) 80 = 70000"
    by code_simp+
  show ?thesis
    using oversized_record_size_only_reported [OF rt len, of ENV0 VNone] u zero_table_decode
    by simp
qed

subsection \<open>A truncated offset table\<close>




subsection \<open>The ranges of the string fields\<close>

lemma length_field_ranges: "length (field_ranges so ps) = length so"
  by (simp add: field_ranges_def)

lemma nth_field_ranges:
  "i < length so \<Longrightarrow>
   field_ranges so ps ! i = (fst (so ! i), snd (so ! i), field_end so ps i)"
  by (simp add: field_ranges_def)

lemma starts_field_ranges: "map range_start (field_ranges so ps) = map snd so"
  by (rule nth_equalityI) (simp_all add: length_field_ranges nth_field_ranges range_start_def)

lemma sorted_starts: "sorted (map range_start (field_ranges (sorted_offsets_of offs) ps))"
  by (simp add: starts_field_ranges sorted_offsets_of_def)

lemma contiguous_field_ranges:
  assumes "i + 1 < length so"
  shows "range_end (field_ranges so ps ! i) = range_start (field_ranges so ps ! (i + 1))"
  using assms by (simp add: nth_field_ranges range_end_def range_start_def field_end_def)

lemma last_field_range:
  assumes "so \<noteq> []"
  shows "range_end (field_ranges so ps ! (length so - 1)) = ps"
  using assms by (simp add: nth_field_ranges range_end_def field_end_def)

lemma length_sorted_offsets_of: "length (sorted_offsets_of offs) = length offs"
  by (simp add: sorted_offsets_of_def)

lemma zero_table_process_hit:
  "process_hit ENV0 ZERO_TABLE_FILE (0, 64) VNone =
     (Inr ZERO_TABLE_RECORD, ZERO_TABLE_FILE\<lparr>pos := 183\<rparr>,
      RecordSizeTooLarge 70000 65536 0 VNone
        # replicate 17 (UnexpectedFlag [] (VInt 0) VNone))"
proof -
  let ?m = "(0 :: nat, 64 :: nat)"
  have rt: "map_of RECENTLY_USED_APPS_TYPES (snd ?m - fst ?m) = Some ''XP''"
    by (simp add: RECENTLY_USED_APPS_TYPES_def)
  have len: "snd ?m + 30 \<le> length (content ZERO_TABLE_FILE)"
    by (simp add: zero_table_len)
  have u: "u64_at (content ZERO_TABLE_FILE) 64 = 0" "u64_at (content ZERO_TABLE_FILE) 72 = 0"
    "u32_at (content ZERO_TABLE_FILE) 80 = 70000"
    by code_simp+
  show ?thesis
    unfolding process_hit_header_ok [OF rt len] Let_def header_fields_at [OF len]
    using u zero_table_decode by (simp add: RUA_MAX_RECORD_SIZE_def)
qed

text \<open>
  C6, as stated, fails. The file with the all-zero offset table is decoded to a record,
  and its table gives 17 offsets, not 16, all equal to 0: in sorted order they do not
  strictly increase, and every range is the empty range from 0 to 0.
\<close>

theorem sorted_offsets_need_not_increase:
  "fst (process_hit ENV0 ZERO_TABLE_FILE (0, 64) VNone) = Inr ZERO_TABLE_RECORD
   \<and> fst (get_prop_offsets (ZERO_TABLE_FILE\<lparr>pos := 94\<rparr>) [] VNone 0) =
       Some ZERO_TABLE_OFFSETS
   \<and> field_ranges
        (sorted_offsets_of (dict_del ''properties_size'' ZERO_TABLE_OFFSETS)) 0 =
       ZERO_TABLE_RANGES
   \<and> length ZERO_TABLE_RANGES = 17
   \<and> \<not> sorted_wrt (<) (map range_start ZERO_TABLE_RANGES)"
proof -
  have e: "pos (ZERO_TABLE_FILE\<lparr>pos := 94\<rparr>) + 89
             \<le> length (content (ZERO_TABLE_FILE\<lparr>pos := 94\<rparr>))"
    by (simp add: zero_table_len)
  have a: "fst (get_prop_offsets (ZERO_TABLE_FILE\<lparr>pos := 94\<rparr>) [] VNone 0) =
       Some [(''folder_path'', 0), (''explorer_filename'', 0), (''last_username'', 0),
       (''original_filename'', 0), (''file_version'', 0), (''product_name'', 0),
       (''product_version'', 0), (''company_name'', 0), (''file_description'', 0),
       (''last_used_time'', 0), (''product_code'', 0),
       (''additional_product_codes'', 0), (''msi_display_name'', 0),
       (''msi_publisher'', 0), (''msi_version'', 0),
       (''software_properties_hash'', 0), (''file_properties_hash'', 0),
       (''properties_size'', 0)]"
    unfolding get_prop_offsets_enough [OF e] Let_def
    by (simp add: zero_table_tbl zero_u32 zero_s16)
  have b: "field_ranges
        (sorted_offsets_of (dict_del ''properties_size''
           [(''folder_path'', 0), (''explorer_filename'', 0), (''last_username'', 0),
       (''original_filename'', 0), (''file_version'', 0), (''product_name'', 0),
       (''product_version'', 0), (''company_name'', 0), (''file_description'', 0),
       (''last_used_time'', 0), (''product_code'', 0),
       (''additional_product_codes'', 0), (''msi_display_name'', 0),
       (''msi_publisher'', 0), (''msi_version'', 0),
       (''software_properties_hash'', 0), (''file_properties_hash'', 0),
       (''properties_size'', 0)])) 0 =
       [(''folder_path'', 0, 0), (''explorer_filename'', 0, 0),
       (''last_username'', 0, 0), (''original_filename'', 0, 0),
       (''file_version'', 0, 0), (''product_name'', 0, 0),
       (''product_version'', 0, 0), (''company_name'', 0, 0),
       (''file_description'', 0, 0), (''last_used_time'', 0, 0),
       (''product_code'', 0, 0), (''additional_product_codes'', 0, 0),
       (''msi_display_name'', 0, 0), (''msi_publisher'', 0, 0),
       (''msi_version'', 0, 0), (''software_properties_hash'', 0, 0),
       (''file_properties_hash'', 0, 0)]"
    unfolding zero_table_sorted by (rule zero_table_ranges)
  have c: "\<not> sorted_wrt (<) (map range_start
           [(''folder_path'', 0, 0), (''explorer_filename'', 0, 0),
       (''last_username'', 0, 0), (''original_filename'', 0, 0),
       (''file_version'', 0, 0), (''product_name'', 0, 0),
       (''product_version'', 0, 0), (''company_name'', 0, 0),
       (''file_description'', 0, 0), (''last_used_time'', 0, 0),
       (''product_code'', 0, 0), (''additional_product_codes'', 0, 0),
       (''msi_display_name'', 0, 0), (''msi_publisher'', 0, 0),
       (''msi_version'', 0, 0), (''software_properties_hash'', 0, 0),
       (''file_properties_hash'', 0, 0)])"
    by (simp add: range_start_def)
  have p: "fst (process_hit ENV0 ZERO_TABLE_FILE (0, 64) VNone) = Inr ZERO_TABLE_RECORD"
    by (simp only: zero_table_process_hit fst_conv)
  have n: "length ZERO_TABLE_RANGES = 17" by (simp add: ZERO_TABLE_RANGES_def)
  show ?thesis
    unfolding ZERO_TABLE_OFFSETS_def
    using p a b c n unfolding ZERO_TABLE_RANGES_def by blast
qed

text \<open>
  C6, amended. Whenever the offset table decodes, the ranges of the string fields are
  17; their starts, the offsets in sorted order, never decrease (equal offsets are
  possible, nothing checks them); each range ends where the next one starts; and the last
  range ends at \<^verbatim>\<open>properties_size\<close>.
\<close>

theorem field_ranges_sorted_contiguous:
  assumes "get_prop_offsets f record0 fullpath hash_start = (Some offsets, record1, f1, d)"
  shows "\<exists>properties_size.
     dict_get offsets ''properties_size'' = Some properties_size
     \<and> (let ranges = field_ranges
                        (sorted_offsets_of (dict_del ''properties_size'' offsets))
                        properties_size
        in length ranges = 17
           \<and> sorted (map range_start ranges)
           \<and> (\<forall>i. i + 1 < 17 \<longrightarrow> range_end (ranges ! i) = range_start (ranges ! (i + 1)))
           \<and> range_end (ranges ! 16) = properties_size)"
proof -
  have e: "pos f + 89 \<le> length (content f)"
  proof (rule ccontr)
    assume "\<not> pos f + 89 \<le> length (content f)"
    then have "length (content f) < pos f + 89" by simp
    from get_prop_offsets_short [OF this] assms show False by simp
  qed
  define tbl where "tbl = take 89 (drop (pos f) (content f))"
  let ?so = "sorted_offsets_of (dict_del ''properties_size'' offsets)"
  have o: "offsets = [(''folder_path'', u32_at tbl 0), (''explorer_filename'', u32_at tbl 4),
       (''last_username'', u32_at tbl 8), (''original_filename'', u32_at tbl 12),
       (''file_version'', u32_at tbl 16), (''product_name'', u32_at tbl 24),
       (''product_version'', u32_at tbl 28), (''company_name'', u32_at tbl 32),
       (''file_description'', u32_at tbl 40), (''last_used_time'', u32_at tbl 48),
       (''product_code'', u32_at tbl 52),
       (''additional_product_codes'', u32_at tbl 56),
       (''msi_display_name'', u32_at tbl 60), (''msi_publisher'', u32_at tbl 64),
       (''msi_version'', u32_at tbl 68),
       (''software_properties_hash'', u32_at tbl 72),
       (''file_properties_hash'', u32_at tbl 76),
       (''properties_size'', s16_at tbl 85)]"
    using assms unfolding get_prop_offsets_enough [OF e] Let_def tbl_def [symmetric] by simp
  have ps: "dict_get offsets ''properties_size'' = Some (s16_at tbl 85)"
    unfolding o by (simp add: dict_get_def)
  have l: "length ?so = 17"
    unfolding o by (simp add: length_sorted_offsets_of dict_del_def)
  have "length (field_ranges ?so (s16_at tbl 85)) = 17"
    by (simp add: length_field_ranges l)
  moreover have "sorted (map range_start (field_ranges ?so (s16_at tbl 85)))"
    by (rule sorted_starts)
  moreover have "\<forall>i. i + 1 < 17 \<longrightarrow>
      range_end (field_ranges ?so (s16_at tbl 85) ! i) =
      range_start (field_ranges ?so (s16_at tbl 85) ! (i + 1))"
    using contiguous_field_ranges [of _ ?so] l by simp
  moreover have "range_end (field_ranges ?so (s16_at tbl 85) ! 16) = s16_at tbl 85"
  proof -
    have "?so \<noteq> []" using l by auto
    from last_field_range [OF this, of "s16_at tbl 85"] show ?thesis by (simp add: l)
  qed
  ultimately show ?thesis using ps by (simp add: Let_def)
qed

text \<open>
  The amended C6 at the all-zero offset table.
\<close>

theorem field_ranges_sorted_contiguous_witness:
  "(let ranges = field_ranges
                   (sorted_offsets_of (dict_del ''properties_size'' ZERO_TABLE_OFFSETS)) 0
    in length ranges = 17 \<and> sorted (map range_start ranges)
       \<and> range_end (ranges ! 0) = range_start (ranges ! 1)
       \<and> range_end (ranges ! 16) = 0)"
proof -
  have e: "pos (ZERO_TABLE_FILE\<lparr>pos := 94\<rparr>) + 89
             \<le> length (content (ZERO_TABLE_FILE\<lparr>pos := 94\<rparr>))"
    by (simp add: zero_table_len)
  have a: "get_prop_offsets (ZERO_TABLE_FILE\<lparr>pos := 94\<rparr>) [] VNone 0 =
       (Some [(''folder_path'', 0), (''explorer_filename'', 0), (''last_username'', 0),
       (''original_filename'', 0), (''file_version'', 0), (''product_name'', 0),
       (''product_version'', 0), (''company_name'', 0), (''file_description'', 0),
       (''last_used_time'', 0), (''product_code'', 0),
       (''additional_product_codes'', 0), (''msi_display_name'', 0),
       (''msi_publisher'', 0), (''msi_version'', 0),
       (''software_properties_hash'', 0), (''file_properties_hash'', 0),
       (''properties_size'', 0)],
        [(''file_size'', VInt 0), (''launch_count'', VInt 0), (''product_language'', VInt 0)],
        ZERO_TABLE_FILE\<lparr>pos := 183\<rparr>, [])"
    unfolding get_prop_offsets_enough [OF e] Let_def
    by (simp add: zero_table_tbl zero_u32 zero_s16 dict_update_def)
  from field_ranges_sorted_contiguous [OF a] obtain ps where
    p1: "dict_get [(''folder_path'', 0), (''explorer_filename'', 0), (''last_username'', 0),
       (''original_filename'', 0), (''file_version'', 0), (''product_name'', 0),
       (''product_version'', 0), (''company_name'', 0), (''file_description'', 0),
       (''last_used_time'', 0), (''product_code'', 0),
       (''additional_product_codes'', 0), (''msi_display_name'', 0),
       (''msi_publisher'', 0), (''msi_version'', 0),
       (''software_properties_hash'', 0), (''file_properties_hash'', 0),
       (''properties_size'', 0)] ''properties_size'' = Some ps"
    and p2: "let ranges = field_ranges (sorted_offsets_of (dict_del ''properties_size''
                 [(''folder_path'', 0), (''explorer_filename'', 0), (''last_username'', 0),
       (''original_filename'', 0), (''file_version'', 0), (''product_name'', 0),
       (''product_version'', 0), (''company_name'', 0), (''file_description'', 0),
       (''last_used_time'', 0), (''product_code'', 0),
       (''additional_product_codes'', 0), (''msi_display_name'', 0),
       (''msi_publisher'', 0), (''msi_version'', 0),
       (''software_properties_hash'', 0), (''file_properties_hash'', 0),
       (''properties_size'', 0)])) ps
             in length ranges = 17
                \<and> sorted (map range_start ranges)
                \<and> (\<forall>i. i + 1 < 17 \<longrightarrow> range_end (ranges ! i) = range_start (ranges ! (i + 1)))
                \<and> range_end (ranges ! 16) = ps"
    by blast
  have ps0: "ps = 0" using p1 by (simp add: dict_get_def)
  define R where "R = field_ranges (sorted_offsets_of (dict_del ''properties_size''
                 [(''folder_path'', 0), (''explorer_filename'', 0), (''last_username'', 0),
       (''original_filename'', 0), (''file_version'', 0), (''product_name'', 0),
       (''product_version'', 0), (''company_name'', 0), (''file_description'', 0),
       (''last_used_time'', 0), (''product_code'', 0),
       (''additional_product_codes'', 0), (''msi_display_name'', 0),
       (''msi_publisher'', 0), (''msi_version'', 0),
       (''software_properties_hash'', 0), (''file_properties_hash'', 0),
       (''properties_size'', 0)])) 0"
  from p2 have q: "length R = 17 \<and> sorted (map range_start R)
      \<and> (\<forall>i. i + 1 < 17 \<longrightarrow> range_end (R ! i) = range_start (R ! (i + 1)))
      \<and> range_end (R ! 16) = 0"
    unfolding ps0 Let_def R_def [symmetric] .
  then have "0 + 1 < (17 :: nat) \<longrightarrow> range_end (R ! 0) = range_start (R ! (0 + 1))"
    by blast
  then have "range_end (R ! 0) = range_start (R ! 1)" by simp
  with q have "length R = 17 \<and> sorted (map range_start R)
      \<and> range_end (R ! 0) = range_start (R ! 1) \<and> range_end (R ! 16) = 0"
    by blast
  then show ?thesis unfolding ZERO_TABLE_OFFSETS_def Let_def R_def [symmetric] .
qed

subsection \<open>The scan\<close>

lemma match_at_None:
  "match_at alts bs = None \<longleftrightarrow> (\<forall>a \<in> set alts. \<not> prefix a bs)"
  by (auto simp: match_at_def find_None_iff)

lemma match_at_Some:
  "match_at alts bs = Some n \<Longrightarrow> \<exists>a \<in> set alts. prefix a bs \<and> n = length a"
  by (auto simp: match_at_def find_Some_iff)

lemma finditer_from_no_match:
  "(\<forall>j. \<forall>a \<in> set alts. \<not> prefix a (drop j data)) \<Longrightarrow> finditer_from alts data i = []"
proof (induction alts data i rule: finditer_from.induct)
  case (1 alts data i)
  show ?case
  proof (cases "length data \<le> i")
    case True
    then show ?thesis by (simp add: finditer_from.simps [of alts data i])
  next
    case False
    have none: "match_at alts (drop i data) = None"
      using "1.prems" by (simp add: match_at_None)
    have "finditer_from alts data (i + 1) = []"
      using "1.IH"(1) [OF False none] "1.prems" by simp
    then show ?thesis
      using False none by (simp add: finditer_from.simps [of alts data i])
  qed
qed

lemma finditer_from_matches:
  "m \<in> set (finditer_from alts data i) \<Longrightarrow>
   \<exists>a \<in> set alts. prefix a (drop (fst m) data) \<and> snd m = fst m + length a"
proof (induction alts data i rule: finditer_from.induct)
  case (1 alts data i)
  show ?case
  proof (cases "length data \<le> i")
    case True
    with "1.prems" show ?thesis by (simp add: finditer_from.simps [of alts data i])
  next
    case False
    show ?thesis
    proof (cases "match_at alts (drop i data)")
      case None
      with False "1.prems" have "m \<in> set (finditer_from alts data (i + 1))"
        by (simp add: finditer_from.simps [of alts data i])
      from "1.IH"(1) [OF False None this] show ?thesis .
    next
      case (Some n)
      with False "1.prems" have "m = (i, i + n) \<or> m \<in> set (finditer_from alts data (i + max n 1))"
        by (simp add: finditer_from.simps [of alts data i])
      then show ?thesis
      proof
        assume "m = (i, i + n)"
        with match_at_Some [OF Some] show ?thesis by auto
      next
        assume "m \<in> set (finditer_from alts data (i + max n 1))"
        from "1.IH"(2) [OF False Some this] show ?thesis .
      qed
    qed
  qed
qed

lemma length_signatures: "length SIG_VISTA = 128" "length SIG_XP = 64"
  by (simp_all add: SIG_VISTA_def SIG_XP_def encode_utf16le_def)

lemma match_length_cases:
  assumes "m \<in> set (finditer pattern data)"
  shows "(prefix SIG_VISTA (drop (fst m) data) \<and> snd m - fst m = 128)
         \<or> (prefix SIG_XP (drop (fst m) data) \<and> snd m - fst m = 64)"
  using finditer_from_matches [OF assms [unfolded finditer_def]]
  by (auto simp: pattern_def length_signatures)

lemma no_signature_empty_scan:
  assumes "content f \<noteq> []"
    and "\<And>i. \<not> prefix SIG_VISTA (drop i (content f))"
    and "\<And>i. \<not> prefix SIG_XP (drop i (content f))"
  shows "parse env f fullpath = ([], None, [])"
proof -
  have "finditer pattern (content f) = []"
    unfolding finditer_def
    by (rule finditer_from_no_match) (simp add: pattern_def assms(2,3))
  then show ?thesis using assms(1) by (simp add: parse_def)
qed

text \<open>The record type survives the decoding of the properties.\<close>

lemma dict_get_read_field:
  "k \<noteq> fst rng \<Longrightarrow>
   dict_get (fst (read_field data fullpath hs rng acc)) k = dict_get (fst acc) k"
  by (simp add: read_field_def split_beta dict_get_dict_set)

lemma dict_get_fold_read_field:
  "k \<notin> fst ` set rngs \<Longrightarrow>
   dict_get (fst (fold (read_field data fullpath hs) rngs acc)) k = dict_get (fst acc) k"
  by (induction rngs arbitrary: acc) (simp_all add: dict_get_read_field)

lemma names_field_ranges: "map fst (field_ranges so ps) = map fst so"
  by (rule nth_equalityI) (simp_all add: length_field_ranges nth_field_ranges)

lemma dict_get_read_fields:
  assumes "k \<notin> fst ` set so"
  shows "dict_get (fst (read_fields data so ps fullpath hs r)) k = dict_get r k"
proof -
  have "fst ` set (field_ranges so ps) = fst ` set so"
    using names_field_ranges [of so ps] by (metis set_map)
  with assms show ?thesis
    by (simp add: read_fields_def dict_get_fold_read_field)
qed

lemma dict_get_dict_update:
  "k \<notin> fst ` set kvs \<Longrightarrow> dict_get (dict_update r kvs) k = dict_get r k"
  unfolding dict_update_def
  by (induction kvs arbitrary: r) (simp_all add: dict_get_dict_set)

lemma parse_fields_keeps:
  assumes "parse_fields env r = Inr r'"
    and "k \<noteq> ''last_updated''" "k \<noteq> ''last_joined_sccm''"
    and "k \<noteq> ''full_path''" "k \<noteq> ''file_extension''"
  shows "dict_get r' k = dict_get r k"
  using assms
  by (auto simp: parse_fields_def Let_def dict_get_dict_set
      split: option.splits sum.splits pyval.splits)

lemma decode_properties_record_type:
  assumes "decode_properties env f r fullpath hs = (Inr r', f', d)"
  shows "dict_get r' ''record_type'' = dict_get r ''record_type''"
proof (cases "pos f + 89 \<le> length (content f)")
  case False
  then have "length (content f) < pos f + 89" by simp
  from get_prop_offsets_short [OF this] assms show ?thesis
    by (simp add: decode_properties_def)
next
  case True
  define tbl where "tbl = take 89 (drop (pos f) (content f))"
  define offsets where "offsets = [(''folder_path'', u32_at tbl 0),
  (''explorer_filename'', u32_at tbl 4),
       (''last_username'', u32_at tbl 8), (''original_filename'', u32_at tbl 12),
       (''file_version'', u32_at tbl 16), (''product_name'', u32_at tbl 24),
       (''product_version'', u32_at tbl 28), (''company_name'', u32_at tbl 32),
       (''file_description'', u32_at tbl 40), (''last_used_time'', u32_at tbl 48),
       (''product_code'', u32_at tbl 52),
       (''additional_product_codes'', u32_at tbl 56),
       (''msi_display_name'', u32_at tbl 60), (''msi_publisher'', u32_at tbl 64),
       (''msi_version'', u32_at tbl 68),
       (''software_properties_hash'', u32_at tbl 72),
       (''file_properties_hash'', u32_at tbl 76),
       (''properties_size'', s16_at tbl 85)]"
  define r1 where "r1 = dict_update r
            [(''file_size'', VInt (u32_at tbl 20)),
             (''launch_count'', VInt (u32_at tbl 44)),
             (''product_language'', VInt (u32_at tbl 36))]"
  define so where "so = sorted_offsets_of (dict_del ''properties_size'' offsets)"
  have g: "get_prop_offsets f r fullpath hs = (Some offsets, r1, f\<lparr>pos := pos f + 89\<rparr>, [])"
    unfolding get_prop_offsets_enough [OF True] Let_def tbl_def [symmetric] offsets_def r1_def
    by simp
  have ps: "dict_get offsets ''properties_size'' = Some (s16_at tbl 85)"
    by (simp add: offsets_def dict_get_def)
  have "set so = set (dict_del ''properties_size'' offsets)"
    unfolding so_def sorted_offsets_of_def by (simp only: set_sort)
  then have names: "''record_type'' \<notin> fst ` set so"
    by (simp add: offsets_def dict_del_def)
  have k1: "dict_get r1 ''record_type'' = dict_get r ''record_type''"
    unfolding r1_def by (rule dict_get_dict_update) simp
  let ?f1 = "f\<lparr>pos := pos f + 89\<rparr>"
  have dp: "decode_properties env f r fullpath hs =
      (case fread ?f1 (blob_read_length (s16_at tbl 85)) of
         Inl e \<Rightarrow> (Inl e, ?f1, [])
       | Inr p \<Rightarrow>
           (parse_fields env (fst (read_fields (fst p) so (s16_at tbl 85) fullpath hs r1)),
            snd p, snd (read_fields (fst p) so (s16_at tbl 85) fullpath hs r1)))"
    unfolding decode_properties_def g so_def
    by (simp add: ps split_beta Let_def split: sum.splits)
  obtain data where
    pf: "parse_fields env (fst (read_fields data so (s16_at tbl 85) fullpath hs r1)) = Inr r'"
  proof (cases "fread ?f1 (blob_read_length (s16_at tbl 85))")
    case (Inl e)
    with dp assms show ?thesis by simp
  next
    case (Inr p)
    with dp assms have
      "parse_fields env (fst (read_fields (fst p) so (s16_at tbl 85) fullpath hs r1)) = Inr r'"
      by simp
    then show ?thesis by (rule that)
  qed
  have "dict_get r' ''record_type'' =
          dict_get (fst (read_fields data so (s16_at tbl 85) fullpath hs r1)) ''record_type''"
    by (rule parse_fields_keeps [OF pf]) simp_all
  also have "\<dots> = dict_get r1 ''record_type''"
    by (rule dict_get_read_fields [OF names])
  finally show ?thesis by (simp add: k1)
qed

lemma process_hit_record_type:
  assumes "process_hit env f m fullpath = (Inr r, f', d)"
  shows "\<exists>rt. map_of RECENTLY_USED_APPS_TYPES (snd m - fst m) = Some rt
              \<and> dict_get r ''record_type'' = Some (VStr (str_of rt))"
proof (cases "map_of RECENTLY_USED_APPS_TYPES (snd m - fst m)")
  case None
  with assms show ?thesis by (simp add: process_hit_def Let_def)
next
  case (Some rt)
  show ?thesis
  proof (cases "snd m + 30 \<le> length (content f)")
    case False
    then have "length (content f) < snd m + 30" by simp
    from process_hit_header_short [OF Some this, of env fullpath] assms
    have "r = [(''input_file_path'', fullpath), (''offset'', VInt (int (fst m))),
               (''record_type'', VStr (str_of rt))]"
      by simp
    then show ?thesis using Some by (simp add: dict_get_def)
  next
    case True
    let ?r0 = "[(''input_file_path'', fullpath),
               (''offset'', VInt (int (fst m))),
               (''record_type'', VStr (str_of rt)),
               (''last_updated'', VInt (u64_at (take 30 (drop (snd m) (content f))) 0)),
               (''last_joined_sccm'', VInt (u64_at (take 30 (drop (snd m) (content f))) 8))]"
    define res where
      "res = decode_properties env (f\<lparr>pos := snd m + 30\<rparr>) ?r0 fullpath (fst m)"
    have "fst (process_hit env f m fullpath) = fst res"
      unfolding process_hit_header_ok [OF Some True] Let_def res_def
      by (simp add: split_beta)
    with assms have "fst res = Inr r" by simp
    then have "res = (Inr r, fst (snd res), snd (snd res))"
      by (cases res) simp
    then have "decode_properties env (f\<lparr>pos := snd m + 30\<rparr>) ?r0 fullpath (fst m) =
                 (Inr r, fst (snd res), snd (snd res))"
      by (simp only: res_def [symmetric])
    from decode_properties_record_type [OF this]
    have "dict_get r ''record_type'' = Some (VStr (str_of rt))"
      by (simp add: dict_get_def)
    with Some show ?thesis by simp
  qed
qed

text \<open>
  C8. Every match is 128 or 64 bytes long (\<open>match_length_cases\<close>), and the record type
  of every record returned for a match is the entry of the fixed map for the length of
  the match (\<open>process_hit_record_type\<close>). The scan of a non-empty file without a
  signature yields nothing and raises nothing (\<open>no_signature_empty_scan\<close>). The empty
  file, which has no signature either, cannot be mapped: the scan of it ends with
  \<^verbatim>\<open>ValueError\<close> instead of an empty sequence.
\<close>

theorem empty_file_scan_raises:
  "parse env \<lparr>content = [], pos = p\<rparr> fullpath = ([], Some ValueError, [])"
  by (simp add: parse_def)

end
